theory Spec2Isabelle
  imports Main "HOL-Library.Word"
begin

section \<open>Data model of the peer and channel control plane\<close>

text \<open>
  The development embeds the peer control unit of the node (the file that holds
  \<^verbatim>\<open>drop_to_chain\<close>, \<^verbatim>\<open>json_close\<close>, \<^verbatim>\<open>json_setchannelfee\<close>,
  \<^verbatim>\<open>funding_depth_cb\<close>, \<^verbatim>\<open>maybe_delete_peer\<close>, ...) built without
  \<^verbatim>\<open>DEVELOPER\<close>. Objects that the C code reaches through pointers live in explicit
  stores: a pointer is an address, \<^verbatim>\<open>NULL\<close> is \<open>None\<close>. Every call that leaves the
  unit (wallet, signer, chain topology, worker processes, JSON-RPC replies, logs) is
  appended to a trace, in the order the code makes the calls.
\<close>

type_synonym u8 = "8 word"
type_synonym u16 = "16 word"
type_synonym u32 = "32 word"
type_synonym u64 = "64 word"

type_synonym chan_ptr = nat
type_synonym peer_ptr = nat
type_synonym cmd_ptr = nat

type_synonym node_id = "u8 list"
type_synonym pubkey = "u8 list"
type_synonym signature = "u8 list"
type_synonym txid = "u8 list"
type_synonym channel_id = "u8 list"
type_synonym txtypes = u32

datatype channel_state =
    CHANNELD_AWAITING_LOCKIN
  | CHANNELD_NORMAL
  | CHANNELD_SHUTTING_DOWN
  | CLOSINGD_SIGEXCHANGE
  | CLOSINGD_COMPLETE
  | AWAITING_UNILATERAL
  | FUNDING_SPEND_SEEN
  | ONCHAIN

text \<open>A transaction: its unsigned content and the witness of input 0 (a nullable pointer).\<close>

record bitcoin_tx =
  content :: "u8 list"
  witness :: "u8 list list option"

record channel =
  peer :: peer_ptr
  dbid :: u64
  state :: channel_state
  owner :: "string option"
  error :: "u8 list option"
  scid :: "u64 option"
  last_tx :: bitcoin_tx
  last_sig :: signature
  last_tx_type :: txtypes
  remote_fundingkey :: pubkey
  local_funding_pubkey :: pubkey
  funding :: u64
  funding_txid :: txid
  funding_outnum :: u16
  minimum_depth :: u32
  future_per_commitment_point :: "pubkey option"
  feerate_base :: u32
  feerate_ppm :: u32

text \<open>
  \<open>owner\<close> is the worker driving the channel, identified by the only field the unit
  reads of it, its name.
\<close>

record peer =
  peer_dbid :: u64
  peer_id :: node_id
  uncommitted_channel :: "nat option"
  channels :: "chan_ptr list"
  addr :: "u8 list"

record close_command =
  cmd :: cmd_ptr
  cc_channel :: "chan_ptr option"
  force :: bool

datatype json =
    J_Null
  | J_String string
  | J_Num nat
  | J_Tx bitcoin_tx
  | J_Txid txid
  | J_Node_Id node_id
  | J_Channel_Id channel_id
  | J_Short_Channel_Id u64
  | J_Array "json list"
  | J_Object "(string \<times> json) list"

record hsm_sign_commitment_tx =
  hsm_peer_id :: node_id
  hsm_dbid :: u64
  hsm_tx :: bitcoin_tx
  hsm_remote_funding_pubkey :: pubkey
  hsm_funding :: u64

datatype hsm_reply = Hsm_Write_Failed | Hsm_Bad_Reply | Hsm_Signature signature

datatype subd_msg =
    Channel_Send_Shutdown
  | Channel_Specific_Feerates u32 u32

datatype jsonrpc_errcode = LIGHTNINGD | JSONRPC2_INVALID_PARAMS

datatype event =
    Log_Broken chan_ptr string
  | Log_Debug chan_ptr string
  | Wire_Sync_Write_Hsm hsm_sign_commitment_tx
  | Wallet_Transaction_Add bitcoin_tx
  | Wallet_Transaction_Annotate txid txtypes u64
  | Broadcast_Tx chan_ptr bitcoin_tx
  | Wallet_Channel_Save chan_ptr channel
  | Wallet_Peer_Delete u64
  | Command_Success cmd_ptr json
  | Command_Fail cmd_ptr jsonrpc_errcode string
  | Subd_Send_Msg string subd_msg
  | New_Reltimer cmd_ptr u32
  | Notify_Connect node_id "u8 list"
  | Notify_Disconnect node_id
  | Channel_Fail_Permanent chan_ptr string
  | Channel_Fail_Transient chan_ptr string
  | Channel_Tell_Depth chan_ptr txid u32
  | Kill_Uncommitted_Channel peer_ptr string
  | Peer_Start_Openingd peer_ptr nat "u8 list option"
  | Peer_Start_Channeld chan_ptr nat bool
  | Peer_Start_Closingd chan_ptr nat bool

record lightningd =
  peers :: "peer_ptr list"
  peer_mem :: "peer_ptr \<Rightarrow> peer"
  chan_mem :: "chan_ptr \<Rightarrow> channel"
  close_commands :: "close_command list"
  destructors :: "(chan_ptr \<times> close_command) list"
  trace :: "event list"

datatype error =
    Assertion_Failed string
  | Fatal string
  | Abort
  | Null_Deref
  | Use_After_Free

text \<open>
  The parts of the repository that the unit calls and that are not part of the embedded
  sources are parameters: the signer's answer, the construction of the 2-of-2 witness,
  the hash of a transaction, the derivation of a channel-id, the encoding of a protocol
  error, the formation of a short-channel-id (\<open>None\<close> when it is invalid), the wallet's
  locator of a transaction, whether the worker accepts a depth notification, the three
  parsers of an id token, and two constants.
\<close>

record env =
  hsm :: "hsm_sign_commitment_tx \<Rightarrow> hsm_reply"
  bitcoin_witness_2of2 :: "bitcoin_tx \<Rightarrow> signature \<Rightarrow> signature \<Rightarrow> pubkey \<Rightarrow> pubkey \<Rightarrow> u8 list list"
  bitcoin_txid :: "bitcoin_tx \<Rightarrow> txid"
  derive_channel_id :: "txid \<Rightarrow> u16 \<Rightarrow> channel_id"
  towire_errorfmt :: "channel_id option \<Rightarrow> string \<Rightarrow> u8 list"
  mk_short_channel_id :: "u32 \<Rightarrow> u32 \<Rightarrow> u16 \<Rightarrow> u64 option"
  wallet_transaction_locate :: "txid \<Rightarrow> (u32 \<times> u32) option"
  channel_tell_depth_ok :: "lightningd \<Rightarrow> chan_ptr \<Rightarrow> txid \<Rightarrow> u32 \<Rightarrow> bool"
  json_to_node_id :: "string \<Rightarrow> node_id option"
  json_tok_channel_id :: "string \<Rightarrow> channel_id option"
  json_to_short_channel_id :: "string \<Rightarrow> u64 option"
  ANNOUNCE_MIN_DEPTH :: u32
  TX_CHANNEL_FUNDING :: txtypes

definition emit :: "event \<Rightarrow> lightningd \<Rightarrow> lightningd" where
  "emit e ld = ld\<lparr>trace := trace ld @ [e]\<rparr>"

definition set_channel :: "chan_ptr \<Rightarrow> channel \<Rightarrow> lightningd \<Rightarrow> lightningd" where
  "set_channel c ch ld = ld\<lparr>chan_mem := (chan_mem ld)(c := ch)\<rparr>"

section \<open>Close commands and command completion\<close>

text \<open>
  \<^verbatim>\<open>destroy_close_command\<close>: unlink the record from the list of close commands and,
  unless its channel pointer was cleared, remove the destroy callback from the channel.
\<close>

definition destroy_close_command :: "lightningd \<Rightarrow> close_command \<Rightarrow> lightningd" where
  "destroy_close_command ld cc =
     (let ld1 = ld\<lparr>close_commands := remove1 cc (close_commands ld)\<rparr>
      in case cc_channel cc of
           None \<Rightarrow> ld1
         | Some c \<Rightarrow> ld1\<lparr>destructors := remove1 (c, cc) (destructors ld1)\<rparr>)"

text \<open>
  Modelled from the spec: \<^verbatim>\<open>command_success\<close> and \<^verbatim>\<open>command_fail\<close> are declared
  in the JSON-RPC header, their bodies are not part of the embedded sources. The spec: the
  result (or the error with its code and text) is emitted and the command is completed. A
  completed command is freed, and a close command is allocated with its command as parent
  (\<^verbatim>\<open>cc = tal(cmd, struct close_command)\<close>), so, as the comment in
  \<^verbatim>\<open>destroy_close_command_on_channel_destroy\<close> says, resolving the command destroys the
  close command and triggers \<^verbatim>\<open>destroy_close_command\<close>.
\<close>

definition free_command :: "lightningd \<Rightarrow> cmd_ptr \<Rightarrow> lightningd" where
  "free_command ld c =
     foldl destroy_close_command ld (filter (\<lambda>cc. cmd cc = c) (close_commands ld))"

definition command_success :: "lightningd \<Rightarrow> cmd_ptr \<Rightarrow> json \<Rightarrow> lightningd" where
  "command_success ld c result = free_command (emit (Command_Success c result) ld) c"

definition command_fail :: "lightningd \<Rightarrow> cmd_ptr \<Rightarrow> jsonrpc_errcode \<Rightarrow> string \<Rightarrow> lightningd" where
  "command_fail ld c code msg = free_command (emit (Command_Fail c code msg) ld) c"

section \<open>Signing, resolving and dropping to chain\<close>

definition towire_hsm_sign_commitment_tx :: "lightningd \<Rightarrow> chan_ptr \<Rightarrow> hsm_sign_commitment_tx" where
  "towire_hsm_sign_commitment_tx ld c =
     (let channel = chan_mem ld c in
      \<lparr>hsm_peer_id = peer_id (peer_mem ld (peer channel)),
       hsm_dbid = dbid channel,
       hsm_tx = last_tx channel,
       hsm_remote_funding_pubkey = remote_fundingkey channel,
       hsm_funding = funding channel\<rparr>)"

definition sign_last_tx :: "env \<Rightarrow> lightningd \<Rightarrow> chan_ptr \<Rightarrow> error + lightningd" where
  "sign_last_tx E ld c =
     (let channel = chan_mem ld c in
      if witness (last_tx channel) \<noteq> None
      then Inl (Assertion_Failed ''!channel->last_tx->wtx->inputs[0].witness'')
      else
        let msg = towire_hsm_sign_commitment_tx ld c;
            ld1 = emit (Wire_Sync_Write_Hsm msg) ld
        in case hsm E msg of
             Hsm_Write_Failed \<Rightarrow> Inl (Fatal ''Could not write to HSM'')
           | Hsm_Bad_Reply \<Rightarrow> Inl (Fatal ''HSM gave bad sign_commitment_tx_reply'')
           | Hsm_Signature sig \<Rightarrow>
               let w = bitcoin_witness_2of2 E (last_tx channel) (last_sig channel) sig
                         (remote_fundingkey channel) (local_funding_pubkey channel)
               in Inr (set_channel c
                         (channel\<lparr>last_tx := (last_tx channel)\<lparr>witness := Some w\<rparr>\<rparr>) ld1))"

definition remove_sig :: "bitcoin_tx \<Rightarrow> bitcoin_tx" where
  "remove_sig signed_tx = signed_tx\<lparr>witness := None\<rparr>"

definition close_result :: "env \<Rightarrow> bitcoin_tx \<Rightarrow> bool \<Rightarrow> json" where
  "close_result E tx cooperative =
     J_Object [(''tx'', J_Tx tx),
               (''txid'', J_Txid (bitcoin_txid E tx)),
               (''type'', J_String (if cooperative then ''mutual'' else ''unilateral''))]"

definition resolve_one_close_command ::
  "env \<Rightarrow> lightningd \<Rightarrow> close_command \<Rightarrow> bool \<Rightarrow> error + lightningd" where
  "resolve_one_close_command E ld cc cooperative =
     (case cc_channel cc of
        None \<Rightarrow> Inl Null_Deref
      | Some c \<Rightarrow>
          Inr (command_success ld (cmd cc)
                 (close_result E (last_tx (chan_mem ld c)) cooperative)))"

text \<open>
  \<^verbatim>\<open>list_for_each_safe\<close> over the close commands: the successor is read before the
  body runs, so the walk follows the list as it was on entry. A record that an earlier
  iteration freed would be read after its release.
\<close>

fun resolve_loop ::
  "env \<Rightarrow> chan_ptr \<Rightarrow> bool \<Rightarrow> close_command list \<Rightarrow> lightningd \<Rightarrow> error + lightningd" where
  "resolve_loop E c cooperative [] ld = Inr ld"
| "resolve_loop E c cooperative (cc # rest) ld =
     (if cc \<notin> set (close_commands ld) then Inl Use_After_Free
      else if cc_channel cc \<noteq> Some c then resolve_loop E c cooperative rest ld
      else case resolve_one_close_command E ld cc cooperative of
             Inl e \<Rightarrow> Inl e
           | Inr ld' \<Rightarrow> resolve_loop E c cooperative rest ld')"

definition resolve_close_command ::
  "env \<Rightarrow> lightningd \<Rightarrow> chan_ptr \<Rightarrow> bool \<Rightarrow> error + lightningd" where
  "resolve_close_command E ld c cooperative =
     resolve_loop E c cooperative (close_commands ld) ld"

definition drop_to_chain ::
  "env \<Rightarrow> lightningd \<Rightarrow> chan_ptr \<Rightarrow> bool \<Rightarrow> error + lightningd" where
  "drop_to_chain E ld c cooperative =
     (if future_per_commitment_point (chan_mem ld c) \<noteq> None \<and> \<not> cooperative
      then resolve_close_command E
             (emit (Log_Broken c ''Cannot broadcast our commitment tx: they have a future one'') ld)
             c cooperative
      else case sign_last_tx E ld c of
             Inl e \<Rightarrow> Inl e
           | Inr ld1 \<Rightarrow>
               let channel = chan_mem ld1 c;
                   tx_id = bitcoin_txid E (last_tx channel);
                   ld2 = emit (Wallet_Transaction_Add (last_tx channel)) ld1;
                   ld3 = emit (Wallet_Transaction_Annotate tx_id (last_tx_type channel) (dbid channel)) ld2;
                   ld4 = emit (Broadcast_Tx c (last_tx channel)) ld3;
                   ld5 = set_channel c (channel\<lparr>last_tx := remove_sig (last_tx channel)\<rparr>) ld4
               in resolve_close_command E ld5 c cooperative)"

section \<open>Channel failure\<close>

text \<open>
  Modelled from the spec: \<^verbatim>\<open>channel_set_state\<close> is not part of the embedded sources.
  The spec describes it as the transition of the channel's lifecycle state; the model
  stores the new state in the channel record.
\<close>

definition channel_set_state :: "lightningd \<Rightarrow> chan_ptr \<Rightarrow> channel_state \<Rightarrow> lightningd" where
  "channel_set_state ld c new_state = set_channel c ((chan_mem ld c)\<lparr>state := new_state\<rparr>) ld"

text \<open>
  Modelled from the spec: \<^verbatim>\<open>channel_fail_permanent\<close> is not part of the embedded
  sources. The spec: a permanent failure transitions the channel to AWAITING_UNILATERAL and
  drops to chain, always through \<^verbatim>\<open>drop_to_chain\<close>, non-cooperatively, so that pending
  close commands resolve with type "unilateral". The comment in
  \<^verbatim>\<open>close_command_timeout\<close> says the same of the call. The reason is kept in the trace.
\<close>

definition channel_fail_permanent ::
  "env \<Rightarrow> lightningd \<Rightarrow> chan_ptr \<Rightarrow> string \<Rightarrow> error + lightningd" where
  "channel_fail_permanent E ld c why =
     drop_to_chain E
       (channel_set_state (emit (Channel_Fail_Permanent c why) ld) c AWAITING_UNILATERAL)
       c False"

text \<open>
  Modelled from the spec: \<^verbatim>\<open>channel_fail_transient\<close> is not part of the embedded
  sources. The spec: the reason is logged, the channel's worker is torn down, and the
  channel record is otherwise untouched.
\<close>

definition channel_fail_transient :: "lightningd \<Rightarrow> chan_ptr \<Rightarrow> string \<Rightarrow> lightningd" where
  "channel_fail_transient ld c why =
     set_channel c ((chan_mem ld c)\<lparr>owner := None\<rparr>)
       (emit (Channel_Fail_Transient c why) ld)"

definition close_command_timeout ::
  "env \<Rightarrow> lightningd \<Rightarrow> close_command \<Rightarrow> error + lightningd" where
  "close_command_timeout E ld cc =
     (if force cc
      then case cc_channel cc of
             None \<Rightarrow> Inl Null_Deref
           | Some c \<Rightarrow>
               channel_fail_permanent E ld c ''Forcibly closed by 'close' command timeout''
      else Inr (command_fail ld (cmd cc) LIGHTNINGD
                  ''Channel close negotiation not finished before timeout''))"

definition register_close_command ::
  "lightningd \<Rightarrow> cmd_ptr \<Rightarrow> chan_ptr \<Rightarrow> u32 \<Rightarrow> bool \<Rightarrow> lightningd" where
  "register_close_command ld c channel timeout frc =
     (let cc = \<lparr>cmd = c, cc_channel = Some channel, force = frc\<rparr>
      in emit (New_Reltimer c timeout)
           (ld\<lparr>close_commands := close_commands ld @ [cc],
               destructors := destructors ld @ [(channel, cc)]\<rparr>))"

definition channel_errmsg ::
  "env \<Rightarrow> lightningd \<Rightarrow> chan_ptr \<Rightarrow> nat option \<Rightarrow> string \<Rightarrow> u8 list option \<Rightarrow> error + lightningd" where
  "channel_errmsg E ld c pps desc err_for_them =
     (if pps = None
      then case owner (chan_mem ld c) of
             None \<Rightarrow> Inl Null_Deref
           | Some name \<Rightarrow> Inr (channel_fail_transient ld c (name @ '': '' @ desc))
      else
        let channel = chan_mem ld c;
            ld1 = (if err_for_them \<noteq> None \<and> error channel = None
                   then set_channel c (channel\<lparr>error := err_for_them\<rparr>) ld
                   else ld);
            ld2 = emit (Notify_Disconnect (peer_id (peer_mem ld1 (peer (chan_mem ld1 c))))) ld1
        in case owner (chan_mem ld2 c) of
             None \<Rightarrow> Inl Null_Deref
           | Some name \<Rightarrow>
               channel_fail_permanent E ld2 c
                 (name @ '': '' @ (if err_for_them \<noteq> None then ''sent'' else ''received'')
                    @ '' ERROR '' @ desc))"

section \<open>Peer registry\<close>

text \<open>
  \<^verbatim>\<open>tal_free(peer)\<close> runs \<^verbatim>\<open>destroy_peer\<close>, which unlinks the peer from the
  registry. A node is linked into a list at most once, so no occurrence is left.
\<close>

definition destroy_peer :: "lightningd \<Rightarrow> peer_ptr \<Rightarrow> lightningd" where
  "destroy_peer ld p = ld\<lparr>peers := removeAll p (peers ld)\<rparr>"

definition wallet_peer_delete :: "lightningd \<Rightarrow> u64 \<Rightarrow> lightningd" where
  "wallet_peer_delete ld row = emit (Wallet_Peer_Delete row) ld"

definition delete_peer :: "lightningd \<Rightarrow> peer_ptr \<Rightarrow> error + lightningd" where
  "delete_peer ld p =
     (if channels (peer_mem ld p) \<noteq> []
      then Inl (Assertion_Failed ''list_empty(&peer->channels)'')
      else if uncommitted_channel (peer_mem ld p) \<noteq> None
      then Inl (Assertion_Failed ''!peer->uncommitted_channel'')
      else Inr (destroy_peer
                  (if peer_dbid (peer_mem ld p) \<noteq> 0
                   then wallet_peer_delete ld (peer_dbid (peer_mem ld p))
                   else ld) p))"

definition maybe_delete_peer :: "lightningd \<Rightarrow> peer_ptr \<Rightarrow> error + lightningd" where
  "maybe_delete_peer ld p =
     (if channels (peer_mem ld p) \<noteq> [] then Inr ld
      else if uncommitted_channel (peer_mem ld p) \<noteq> None
      then (if peer_dbid (peer_mem ld p) \<noteq> 0
            then Inr ((wallet_peer_delete ld (peer_dbid (peer_mem ld p)))
                        \<lparr>peer_mem := (peer_mem ld)(p := (peer_mem ld p)\<lparr>peer_dbid := 0\<rparr>)\<rparr>)
            else Inr ld)
      else delete_peer ld p)"

definition peer_by_id :: "lightningd \<Rightarrow> node_id \<Rightarrow> peer_ptr option" where
  "peer_by_id ld i = find (\<lambda>p. peer_id (peer_mem ld p) = i) (peers ld)"

text \<open>
  Modelled from the spec: \<^verbatim>\<open>channel_active\<close> and \<^verbatim>\<open>peer_active_channel\<close> are not
  part of the embedded sources. The spec: a peer has at most one active channel, and
  ONCHAIN, FUNDING_SPEND_SEEN and CLOSING_COMPLETE are the states a selected channel is
  never in; the reconnect handler's comments say the same ("Channel is supposed to be
  active!") and count AWAITING_UNILATERAL as active. The selected channel is the first
  active one of the peer's list.
\<close>

definition channel_active :: "channel \<Rightarrow> bool" where
  "channel_active ch =
     (state ch \<noteq> FUNDING_SPEND_SEEN \<and> state ch \<noteq> CLOSINGD_COMPLETE \<and> state ch \<noteq> ONCHAIN)"

definition peer_active_channel :: "lightningd \<Rightarrow> peer_ptr \<Rightarrow> chan_ptr option" where
  "peer_active_channel ld p =
     find (\<lambda>c. channel_active (chan_mem ld c)) (channels (peer_mem ld p))"

section \<open>The close command\<close>

datatype command_result =
    Command_Param_Failed
  | Command_Succeeded
  | Command_Failed
  | Command_Still_Pending

text \<open>
  Modelled from the spec: \<^verbatim>\<open>channel_state_name\<close> is not part of the embedded sources.
  The spec shows the name of a state as the identifier of the state, as in
  "Peer is in state CHANNELD_NORMAL".
\<close>

fun channel_state_name :: "channel_state \<Rightarrow> string" where
  "channel_state_name CHANNELD_AWAITING_LOCKIN = ''CHANNELD_AWAITING_LOCKIN''"
| "channel_state_name CHANNELD_NORMAL = ''CHANNELD_NORMAL''"
| "channel_state_name CHANNELD_SHUTTING_DOWN = ''CHANNELD_SHUTTING_DOWN''"
| "channel_state_name CLOSINGD_SIGEXCHANGE = ''CLOSINGD_SIGEXCHANGE''"
| "channel_state_name CLOSINGD_COMPLETE = ''CLOSINGD_COMPLETE''"
| "channel_state_name AWAITING_UNILATERAL = ''AWAITING_UNILATERAL''"
| "channel_state_name FUNDING_SPEND_SEEN = ''FUNDING_SPEND_SEEN''"
| "channel_state_name ONCHAIN = ''ONCHAIN''"

definition peer_from_json :: "env \<Rightarrow> lightningd \<Rightarrow> string \<Rightarrow> peer_ptr option" where
  "peer_from_json E ld tok =
     (case json_to_node_id E tok of None \<Rightarrow> None | Some i \<Rightarrow> peer_by_id ld i)"

text \<open>
  \<^verbatim>\<open>command_find_channel\<close>: the active channel of the first peer, in registry order,
  whose channel-id (or short-channel-id) is the given one. \<open>Inl\<close> is the node after the
  command has been failed.
\<close>

definition quoted :: "string \<Rightarrow> string" where
  "quoted s = [CHR 0x27] @ s @ [CHR 0x27]"

definition command_find_channel ::
  "env \<Rightarrow> lightningd \<Rightarrow> cmd_ptr \<Rightarrow> string \<Rightarrow> lightningd + chan_ptr" where
  "command_find_channel E ld c tok =
     (case json_tok_channel_id E tok of
        Some cid \<Rightarrow>
          (case find (\<lambda>ch. derive_channel_id E (funding_txid (chan_mem ld ch))
                               (funding_outnum (chan_mem ld ch)) = cid)
                     (List.map_filter (peer_active_channel ld) (peers ld)) of
             Some ch \<Rightarrow> Inr ch
           | None \<Rightarrow> Inl (command_fail ld c JSONRPC2_INVALID_PARAMS
                           (''Channel ID not found: '' @ quoted tok)))
      | None \<Rightarrow>
          (case json_to_short_channel_id E tok of
             Some s \<Rightarrow>
               (case find (\<lambda>ch. scid (chan_mem ld ch) = Some s)
                          (List.map_filter (peer_active_channel ld) (peers ld)) of
                  Some ch \<Rightarrow> Inr ch
                | None \<Rightarrow> Inl (command_fail ld c JSONRPC2_INVALID_PARAMS
                                (''Short channel ID not found: '' @ quoted tok)))
           | None \<Rightarrow> Inl (command_fail ld c JSONRPC2_INVALID_PARAMS
                           (''Given id is not a channel ID or short channel ID: '' @ quoted tok))))"

text \<open>
  The head of \<^verbatim>\<open>json_close\<close>: the id is a peer (then its active channel, possibly
  none, is the target) or else a channel looked up by \<^verbatim>\<open>command_find_channel\<close>.
\<close>

definition close_lookup ::
  "env \<Rightarrow> lightningd \<Rightarrow> cmd_ptr \<Rightarrow> string \<Rightarrow> lightningd + (peer_ptr option \<times> chan_ptr option)" where
  "close_lookup E ld c idtok =
     (case peer_from_json E ld idtok of
        Some p \<Rightarrow> Inr (Some p, peer_active_channel ld p)
      | None \<Rightarrow>
          (case command_find_channel E ld c idtok of
             Inl ld' \<Rightarrow> Inl ld'
           | Inr ch \<Rightarrow> Inr (None, Some ch)))"

definition close_channel ::
  "lightningd \<Rightarrow> cmd_ptr \<Rightarrow> chan_ptr \<Rightarrow> bool \<Rightarrow> u32 \<Rightarrow> lightningd \<times> command_result" where
  "close_channel ld c ch frc timeout =
     (let st = state (chan_mem ld ch) in
      if st \<noteq> CHANNELD_NORMAL \<and> st \<noteq> CHANNELD_AWAITING_LOCKIN \<and>
         st \<noteq> CHANNELD_SHUTTING_DOWN \<and> st \<noteq> CLOSINGD_SIGEXCHANGE
      then (command_fail ld c LIGHTNINGD (''Channel is in state '' @ channel_state_name st),
            Command_Failed)
      else
        let ld1 = (if st = CHANNELD_NORMAL \<or> st = CHANNELD_AWAITING_LOCKIN
                   then let ld' = channel_set_state ld ch CHANNELD_SHUTTING_DOWN
                        in case owner (chan_mem ld' ch) of
                             None \<Rightarrow> ld'
                           | Some name \<Rightarrow> emit (Subd_Send_Msg name Channel_Send_Shutdown) ld'
                   else ld)
        in (register_close_command ld1 c ch timeout frc, Command_Still_Pending))"

text \<open>
  \<^verbatim>\<open>json_close\<close> after its parameters were parsed (\<open>force\<close> defaults to false,
  \<open>timeout\<close> to 30). \<open>close_channel\<close> is its "normal case", from the state check on.
  A lookup that gave neither a peer nor a channel would reach the state check with a
  \<^verbatim>\<open>NULL\<close> channel; \<^verbatim>\<open>command_find_channel\<close> never answers so.
\<close>

definition json_close ::
  "env \<Rightarrow> lightningd \<Rightarrow> cmd_ptr \<Rightarrow> string \<Rightarrow> bool \<Rightarrow> u32 \<Rightarrow> error + lightningd \<times> command_result" where
  "json_close E ld c idtok frc timeout =
     (case close_lookup E ld c idtok of
        Inl ld' \<Rightarrow> Inr (ld', Command_Failed)
      | Inr (Some p, None) \<Rightarrow>
          (case uncommitted_channel (peer_mem ld p) of
             Some uc \<Rightarrow>
               Inr (command_success
                      (emit (Kill_Uncommitted_Channel p ''close command called'') ld)
                      c J_Null,
                    Command_Succeeded)
           | None \<Rightarrow>
               Inr (command_fail ld c LIGHTNINGD ''Peer has no active channel'',
                    Command_Failed))
      | Inr (None, None) \<Rightarrow> Inl Null_Deref
      | Inr (p, Some ch) \<Rightarrow> Inr (close_channel ld c ch frc timeout))"

section \<open>Reconnection\<close>

record peer_connected_hook_payload =
  pl_channel :: "chan_ptr option"
  pl_addr :: "u8 list"
  pl_peer :: peer_ptr
  pl_pps :: nat

definition send_error ::
  "lightningd \<Rightarrow> peer_connected_hook_payload \<Rightarrow> u8 list option \<Rightarrow> lightningd" where
  "send_error ld payload err = emit (Peer_Start_Openingd (pl_peer payload) (pl_pps payload) err) ld"

text \<open>
  \<^verbatim>\<open>peer_connected_hook_cb\<close>. The plugin's reply is the list of its members
  (\<open>None\<close> when no plugin holds the hook); \<open>send_error\<close> is the code at the label of that
  name, reached with the error to send or with none; \<open>resume_worker\<close> is the body shared
  by the cases that hand the connection to the channel or the closing worker.
\<close>

definition resume_worker ::
  "lightningd \<Rightarrow> peer_connected_hook_payload \<Rightarrow> chan_ptr \<Rightarrow> event \<Rightarrow> error + lightningd" where
  "resume_worker ld payload c start =
     (let channel = chan_mem ld c in
      if owner channel \<noteq> None
      then Inl (Assertion_Failed ''!channel->owner'')
      else Inr (emit start
                  (ld\<lparr>peer_mem := (peer_mem ld)
                         (peer channel := (peer_mem ld (peer channel))\<lparr>addr := pl_addr payload\<rparr>)\<rparr>)))"

definition peer_connected_hook_cb ::
  "env \<Rightarrow> lightningd \<Rightarrow> peer_connected_hook_payload \<Rightarrow> (string \<times> string) list option
     \<Rightarrow> error + lightningd" where
  "peer_connected_hook_cb E ld payload buffer =
     (let verdict =
            (case buffer of
               None \<Rightarrow> Inr None
             | Some members \<Rightarrow>
                 (case map_of members ''result'' of
                    None \<Rightarrow> Inl (Fatal ''Plugin returned an invalid response to the connected hook'')
                  | Some r \<Rightarrow>
                      if r = ''disconnect''
                      then Inr (Some (map_of members ''error_message''))
                      else if r \<noteq> ''continue''
                      then Inl (Fatal ''Plugin returned an invalid response to the connected hook'')
                      else Inr None))
      in case verdict of
           Inl e \<Rightarrow> Inl e
         | Inr (Some (Some m)) \<Rightarrow> Inr (send_error ld payload (Some (towire_errorfmt E None m)))
         | Inr (Some None) \<Rightarrow> Inr ld
         | Inr None \<Rightarrow>
             (case pl_channel payload of
                None \<Rightarrow>
                  Inr (send_error
                         (emit (Notify_Connect (peer_id (peer_mem ld (pl_peer payload))) (pl_addr payload)) ld)
                         payload None)
              | Some c \<Rightarrow>
                  let ld1 = emit (Log_Debug c ''Peer has reconnected, state %s'') ld;
                      channel = chan_mem ld1 c
                  in if error channel \<noteq> None
                     then Inr (send_error ld1 payload (error channel))
                     else
                       (case state channel of
                          ONCHAIN \<Rightarrow> Inl Abort
                        | FUNDING_SPEND_SEEN \<Rightarrow> Inl Abort
                        | CLOSINGD_COMPLETE \<Rightarrow> Inl Abort
                        | AWAITING_UNILATERAL \<Rightarrow>
                            let cid = derive_channel_id E (funding_txid channel) (funding_outnum channel)
                            in Inr (send_error ld1 payload
                                      (Some (towire_errorfmt E (Some cid) ''Awaiting unilateral close'')))
                        | CHANNELD_AWAITING_LOCKIN \<Rightarrow>
                            resume_worker ld1 payload c (Peer_Start_Channeld c (pl_pps payload) True)
                        | CHANNELD_NORMAL \<Rightarrow>
                            resume_worker ld1 payload c (Peer_Start_Channeld c (pl_pps payload) True)
                        | CHANNELD_SHUTTING_DOWN \<Rightarrow>
                            resume_worker ld1 payload c (Peer_Start_Channeld c (pl_pps payload) True)
                        | CLOSINGD_SIGEXCHANGE \<Rightarrow>
                            resume_worker ld1 payload c (Peer_Start_Closingd c (pl_pps payload) True))))"

section \<open>The funding watcher\<close>

datatype watch_result = DELETE_WATCH | KEEP_WATCHING

text \<open>
  The tail of \<^verbatim>\<open>funding_depth_cb\<close>, from "Try to tell subdaemon" on. The call of
  \<^verbatim>\<open>channel_tell_depth\<close> is recorded; whether the worker takes the notification is
  a parameter.
\<close>

definition tell_depth ::
  "env \<Rightarrow> lightningd \<Rightarrow> chan_ptr \<Rightarrow> txid \<Rightarrow> u32 \<Rightarrow> bool \<Rightarrow> lightningd \<times> watch_result" where
  "tell_depth E ld c tx depth min_depth_reached =
     (let ld1 = emit (Channel_Tell_Depth c tx depth) ld in
      if \<not> channel_tell_depth_ok E ld c tx depth then (ld1, KEEP_WATCHING)
      else if \<not> min_depth_reached then (ld1, KEEP_WATCHING)
      else if depth < ANNOUNCE_MIN_DEPTH E then (ld1, KEEP_WATCHING)
      else (ld1, DELETE_WATCH))"

text \<open>
  \<^verbatim>\<open>funding_depth_cb\<close>. The reasons of the two failures are kept as their format
  strings.
\<close>

definition funding_depth_cb ::
  "env \<Rightarrow> lightningd \<Rightarrow> chan_ptr \<Rightarrow> txid \<Rightarrow> u32 \<Rightarrow> error + lightningd \<times> watch_result" where
  "funding_depth_cb E ld c tx depth =
     (let ld0 = emit (Log_Debug c ''Funding tx %s depth %u of %u'') ld;
          channel = chan_mem ld0 c;
          min_depth_reached = (minimum_depth channel \<le> depth)
      in if (min_depth_reached \<and> scid channel = None) \<or> (depth \<noteq> 0 \<and> scid channel \<noteq> None)
         then
           let ld1 = emit (Wallet_Transaction_Annotate tx (TX_CHANNEL_FUNDING E) (dbid channel)) ld0
           in case wallet_transaction_locate E tx of
                None \<Rightarrow> Inl Null_Deref
              | Some (blkheight, index) \<Rightarrow>
                  (case mk_short_channel_id E blkheight index (funding_outnum channel) of
                     None \<Rightarrow>
                       (case channel_fail_permanent E ld1 c ''Invalid funding scid %u:%u:%u'' of
                          Inl e \<Rightarrow> Inl e
                        | Inr ld2 \<Rightarrow> Inr (ld2, DELETE_WATCH))
                   | Some new_scid \<Rightarrow>
                       if scid channel = None
                       then
                         let saved = channel\<lparr>scid := Some new_scid\<rparr>
                         in Inr (tell_depth E
                                   (emit (Wallet_Channel_Save c saved) (set_channel c saved ld1))
                                   c tx depth min_depth_reached)
                       else if scid channel \<noteq> Some new_scid
                       then
                         let ld2 = channel_fail_transient ld1 c
                                     ''short_channel_id changed to %s (was %s)'';
                             saved = (chan_mem ld2 c)\<lparr>scid := Some new_scid\<rparr>
                         in Inr (emit (Wallet_Channel_Save c saved) (set_channel c saved ld2),
                                 KEEP_WATCHING)
                       else Inr (tell_depth E ld1 c tx depth min_depth_reached))
         else Inr (tell_depth E ld0 c tx depth min_depth_reached))"

section \<open>Setting channel fees\<close>

definition param_channel_or_all ::
  "env \<Rightarrow> lightningd \<Rightarrow> cmd_ptr \<Rightarrow> string \<Rightarrow> lightningd + chan_ptr option" where
  "param_channel_or_all E ld c tok =
     (if tok = ''all'' then Inr None
      else case peer_from_json E ld tok of
             Some p \<Rightarrow>
               (case peer_active_channel ld p of
                  None \<Rightarrow> Inl (command_fail ld c LIGHTNINGD
                                  ''Could not find active channel of peer with that id'')
                | Some ch \<Rightarrow> Inr (Some ch))
           | None \<Rightarrow>
               (case command_find_channel E ld c tok of
                  Inl ld' \<Rightarrow> Inl ld'
                | Inr ch \<Rightarrow> Inr (Some ch)))"

definition set_channel_fees ::
  "env \<Rightarrow> lightningd \<Rightarrow> chan_ptr \<Rightarrow> u32 \<Rightarrow> u32 \<Rightarrow> json list \<Rightarrow> lightningd \<times> json list" where
  "set_channel_fees E ld c base ppm response =
     (let channel = (chan_mem ld c)\<lparr>feerate_base := base, feerate_ppm := ppm\<rparr>;
          ld1 = set_channel c channel ld;
          ld2 = (if owner channel = Some ''lightning_channeld''
                 then emit (Subd_Send_Msg ''lightning_channeld'' (Channel_Specific_Feerates base ppm)) ld1
                 else ld1);
          ld3 = emit (Wallet_Channel_Save c channel) ld2;
          cid = derive_channel_id E (funding_txid channel) (funding_outnum channel)
      in (ld3,
          response @
            [J_Object ([(''peer_id'', J_Node_Id (peer_id (peer_mem ld3 (peer channel)))),
                        (''channel_id'', J_Channel_Id cid)]
                       @ (case scid channel of
                            None \<Rightarrow> []
                          | Some s \<Rightarrow> [(''short_channel_id'', J_Short_Channel_Id s)]))]))"

text \<open>
  The two cursor operations of an intrusive list: the first node, and the successor of a
  node. \<open>None\<close> is the list head, where \<^verbatim>\<open>list_for_each\<close> stops.
\<close>

definition list_top :: "'a list \<Rightarrow> 'a option" where
  "list_top xs = (case xs of [] \<Rightarrow> None | x # rest \<Rightarrow> Some x)"

fun list_next :: "'a list \<Rightarrow> 'a \<Rightarrow> 'a option" where
  "list_next [] node = None"
| "list_next (x # xs) node = (if x = node then list_top xs else list_next xs node)"

text \<open>
  The inner loop of the "all" branch of \<^verbatim>\<open>json_setchannelfee\<close>:
  \<^verbatim>\<open>list_for_each(&peer->channels, channel, list)\<close>, whose body starts by assigning
  the peer's active channel to the loop variable \<open>channel\<close> itself. The step of the loop
  therefore reads the successor of whatever the body left in \<open>channel\<close>: the successor of
  the active channel, or a read through \<^verbatim>\<open>NULL\<close> after the \<^verbatim>\<open>continue\<close> taken
  when the peer has no active channel. The loop need not end, so not returning is the
  value \<open>None\<close>.
\<close>

partial_function (option) setchannelfee_walk ::
  "env \<Rightarrow> peer_ptr \<Rightarrow> u32 \<Rightarrow> u32 \<Rightarrow> chan_ptr option \<Rightarrow> lightningd \<times> json list
     \<Rightarrow> (error + lightningd \<times> json list) option" where
  "setchannelfee_walk E p base ppm cursor st =
     (case cursor of
        None \<Rightarrow> Some (Inr st)
      | Some node \<Rightarrow>
          (case peer_active_channel (fst st) p of
             None \<Rightarrow> Some (Inl Null_Deref)
           | Some channel \<Rightarrow>
               setchannelfee_walk E p base ppm
                 (list_next (channels (peer_mem (fst st) p)) channel)
                 (if state (chan_mem (fst st) channel) \<noteq> CHANNELD_NORMAL \<and>
                     state (chan_mem (fst st) channel) \<noteq> CHANNELD_AWAITING_LOCKIN
                  then st
                  else set_channel_fees E (fst st) channel base ppm (snd st))))"

fun setchannelfee_all ::
  "env \<Rightarrow> u32 \<Rightarrow> u32 \<Rightarrow> peer_ptr list \<Rightarrow> lightningd \<times> json list
     \<Rightarrow> (error + lightningd \<times> json list) option" where
  "setchannelfee_all E base ppm [] st = Some (Inr st)"
| "setchannelfee_all E base ppm (p # ps) st =
     (case setchannelfee_walk E p base ppm (list_top (channels (peer_mem (fst st) p))) st of
        None \<Rightarrow> None
      | Some (Inl e) \<Rightarrow> Some (Inl e)
      | Some (Inr st') \<Rightarrow> setchannelfee_all E base ppm ps st')"

definition setchannelfee_response :: "u32 \<Rightarrow> u32 \<Rightarrow> json list \<Rightarrow> json" where
  "setchannelfee_response base ppm chans =
     J_Object [(''base'', J_Num (unat base)), (''ppm'', J_Num (unat ppm)),
               (''channels'', J_Array chans)]"

text \<open>
  \<^verbatim>\<open>json_setchannelfee\<close> after \<open>base\<close> and \<open>ppm\<close> were parsed; the id is parsed by
  \<^verbatim>\<open>param_channel_or_all\<close>.
\<close>

definition json_setchannelfee ::
  "env \<Rightarrow> lightningd \<Rightarrow> cmd_ptr \<Rightarrow> string \<Rightarrow> u32 \<Rightarrow> u32
     \<Rightarrow> (error + lightningd \<times> command_result) option" where
  "json_setchannelfee E ld c idtok base ppm =
     (case param_channel_or_all E ld c idtok of
        Inl ld' \<Rightarrow> Some (Inr (ld', Command_Param_Failed))
      | Inr None \<Rightarrow>
          (case setchannelfee_all E base ppm (peers ld) (ld, []) of
             None \<Rightarrow> None
           | Some (Inl e) \<Rightarrow> Some (Inl e)
           | Some (Inr (ld', chans)) \<Rightarrow>
               Some (Inr (command_success ld' c (setchannelfee_response base ppm chans),
                          Command_Succeeded)))
      | Inr (Some ch) \<Rightarrow>
          if state (chan_mem ld ch) \<noteq> CHANNELD_NORMAL \<and>
             state (chan_mem ld ch) \<noteq> CHANNELD_AWAITING_LOCKIN
          then Some (Inr (command_fail ld c LIGHTNINGD
                            (''Channel is in state '' @ channel_state_name (state (chan_mem ld ch))),
                          Command_Failed))
          else
            (case set_channel_fees E ld ch base ppm [] of
               (ld', chans) \<Rightarrow>
                 Some (Inr (command_success ld' c (setchannelfee_response base ppm chans),
                            Command_Succeeded))))"

section \<open>Reading the trace\<close>

definition events_since :: "lightningd \<Rightarrow> lightningd \<Rightarrow> event list" where
  "events_since ld ld' = drop (length (trace ld)) (trace ld')"

definition outcome :: "lightningd \<Rightarrow> error + lightningd \<times> 'a \<Rightarrow> error + event list \<times> 'a" where
  "outcome ld r = (case r of Inl e \<Rightarrow> Inl e | Inr (ld', x) \<Rightarrow> Inr (events_since ld ld', x))"

text \<open>
  The two ways \<^verbatim>\<open>sign_last_tx\<close> ends the process are a witness already attached
  (assertion) and a signer that cannot be written to or answers badly (fatal). It goes
  through when neither happens.
\<close>

definition can_sign :: "env \<Rightarrow> lightningd \<Rightarrow> chan_ptr \<Rightarrow> bool" where
  "can_sign E ld c =
     (witness (last_tx (chan_mem ld c)) = None \<and>
      (case hsm E (towire_hsm_sign_commitment_tx ld c) of
         Hsm_Signature sig \<Rightarrow> True
       | _ \<Rightarrow> False))"

fun signs_or_broadcasts :: "event \<Rightarrow> bool" where
  "signs_or_broadcasts (Wire_Sync_Write_Hsm m) = True"
| "signs_or_broadcasts (Wallet_Transaction_Add tx) = True"
| "signs_or_broadcasts (Wallet_Transaction_Annotate i t d) = True"
| "signs_or_broadcasts (Broadcast_Tx c tx) = True"
| "signs_or_broadcasts e = False"

section \<open>A small node state for concrete runs\<close>

definition sample_env :: env where
  "sample_env =
     \<lparr>hsm = (\<lambda>m. Hsm_Signature [7]),
      bitcoin_witness_2of2 = (\<lambda>tx s1 s2 k1 k2. [s1, s2, k1, k2]),
      bitcoin_txid = (\<lambda>tx. rev (content tx)),
      derive_channel_id = (\<lambda>t n. t @ [ucast n]),
      towire_errorfmt = (\<lambda>cid s. (case cid of None \<Rightarrow> [0] | Some i \<Rightarrow> i) @ map (of_nat \<circ> of_char) s),
      mk_short_channel_id = (\<lambda>h i n. if h < 16777216 \<and> i < 16777216
                                    then Some (push_bit 40 (ucast h) + push_bit 16 (ucast i) + ucast n)
                                    else None),
      wallet_transaction_locate = (\<lambda>t. Some (500, 2)),
      channel_tell_depth_ok = (\<lambda>ld c t d. True),
      json_to_node_id = (\<lambda>s. if s = ''02peer'' then Some [2, 17] else None),
      json_tok_channel_id = (\<lambda>s. if s = ''chan'' then Some [170, 187, 1] else None),
      json_to_short_channel_id = (\<lambda>s. None),
      ANNOUNCE_MIN_DEPTH = 6,
      TX_CHANNEL_FUNDING = 1\<rparr>"

definition sample_channel :: channel where
  "sample_channel =
     \<lparr>peer = 0, dbid = 11, state = CHANNELD_NORMAL, owner = Some ''lightning_channeld'',
      error = None, scid = None,
      last_tx = \<lparr>content = [1, 2, 3], witness = None\<rparr>,
      last_sig = [9], last_tx_type = 4,
      remote_fundingkey = [2], local_funding_pubkey = [3],
      funding = 100000, funding_txid = [170, 187], funding_outnum = 1,
      minimum_depth = 3, future_per_commitment_point = None,
      feerate_base = 1, feerate_ppm = 10\<rparr>"

definition sample_peer :: peer where
  "sample_peer =
     \<lparr>peer_dbid = 5, peer_id = [2, 17], uncommitted_channel = None, channels = [0], addr = [127, 0, 0, 1]\<rparr>"

definition sample_ld :: lightningd where
  "sample_ld =
     \<lparr>peers = [0],
      peer_mem = (\<lambda>p. sample_peer),
      chan_mem = (\<lambda>c. sample_channel),
      close_commands = [\<lparr>cmd = 1, cc_channel = Some 0, force = False\<rparr>,
                        \<lparr>cmd = 2, cc_channel = Some 1, force = True\<rparr>,
                        \<lparr>cmd = 3, cc_channel = Some 0, force = True\<rparr>],
      destructors = [(0, \<lparr>cmd = 1, cc_channel = Some 0, force = False\<rparr>),
                     (1, \<lparr>cmd = 2, cc_channel = Some 1, force = True\<rparr>),
                     (0, \<lparr>cmd = 3, cc_channel = Some 0, force = True\<rparr>)],
      trace = []\<rparr>"

section \<open>Properties\<close>

lemma emit_simps:
  "trace (emit e ld) = trace ld @ [e]"
  "close_commands (emit e ld) = close_commands ld"
  "destructors (emit e ld) = destructors ld"
  "chan_mem (emit e ld) = chan_mem ld"
  "peer_mem (emit e ld) = peer_mem ld"
  "peers (emit e ld) = peers ld"
  by (simp_all add: emit_def)

lemma destroy_close_command_simps:
  "close_commands (destroy_close_command ld cc) = remove1 cc (close_commands ld)"
  "trace (destroy_close_command ld cc) = trace ld"
  "chan_mem (destroy_close_command ld cc) = chan_mem ld"
  "peer_mem (destroy_close_command ld cc) = peer_mem ld"
  "peers (destroy_close_command ld cc) = peers ld"
  by (simp_all add: destroy_close_command_def Let_def split: option.splits)

lemma filter_cmd_single:
  "distinct (map cmd xs) \<Longrightarrow> cc \<in> set xs \<Longrightarrow> filter (\<lambda>x. cmd x = cmd cc) xs = [cc]"
proof (induction xs)
  case Nil
  then show ?case by simp
next
  case (Cons x xs)
  show ?case
  proof (cases "x = cc")
    case True
    have "\<forall>y\<in>set xs. cmd y \<noteq> cmd cc" using Cons.prems True by (fastforce simp: image_iff)
    then have "filter (\<lambda>x. cmd x = cmd cc) xs = []" by (simp add: filter_empty_conv)
    with True show ?thesis by simp
  next
    case False
    then have in_xs: "cc \<in> set xs" using Cons.prems by simp
    then have "cmd x \<noteq> cmd cc" using Cons.prems by (fastforce simp: image_iff)
    with Cons.IH Cons.prems in_xs show ?thesis by simp
  qed
qed

lemma free_command_single:
  "distinct (map cmd (close_commands ld)) \<Longrightarrow> cc \<in> set (close_commands ld) \<Longrightarrow>
   free_command ld (cmd cc) = destroy_close_command ld cc"
  by (simp add: free_command_def filter_cmd_single)

lemma command_success_simps:
  assumes "distinct (map cmd (close_commands ld))" "cc \<in> set (close_commands ld)"
  shows "close_commands (command_success ld (cmd cc) r) = remove1 cc (close_commands ld)"
    and "trace (command_success ld (cmd cc) r) = trace ld @ [Command_Success (cmd cc) r]"
    and "chan_mem (command_success ld (cmd cc) r) = chan_mem ld"
    and "peer_mem (command_success ld (cmd cc) r) = peer_mem ld"
    and "peers (command_success ld (cmd cc) r) = peers ld"
  using assms
  by (simp_all add: command_success_def free_command_single emit_simps destroy_close_command_simps)

lemma resolve_loop_spec:
  assumes "distinct (map cmd (close_commands ld))"
    and "close_commands ld = kept @ rest"
    and "\<forall>k\<in>set kept. cc_channel k \<noteq> Some c"
  shows "\<exists>ld'. resolve_loop E c coop rest ld = Inr ld'
           \<and> close_commands ld' = kept @ filter (\<lambda>x. cc_channel x \<noteq> Some c) rest
           \<and> trace ld' = trace ld @
                map (\<lambda>x. Command_Success (cmd x) (close_result E (last_tx (chan_mem ld c)) coop))
                    (filter (\<lambda>x. cc_channel x = Some c) rest)
           \<and> chan_mem ld' = chan_mem ld \<and> peer_mem ld' = peer_mem ld \<and> peers ld' = peers ld"
  using assms
proof (induction rest arbitrary: ld kept)
  case Nil
  then show ?case by simp
next
  case (Cons cc rest)
  have live: "cc \<in> set (close_commands ld)" using Cons.prems(2) by simp
  show ?case
  proof (cases "cc_channel cc = Some c")
    case False
    have "close_commands ld = (kept @ [cc]) @ rest" using Cons.prems(2) by simp
    moreover have "\<forall>k\<in>set (kept @ [cc]). cc_channel k \<noteq> Some c"
      using Cons.prems(3) False by simp
    ultimately obtain ld' where
      "resolve_loop E c coop rest ld = Inr ld'"
      "close_commands ld' = (kept @ [cc]) @ filter (\<lambda>x. cc_channel x \<noteq> Some c) rest"
      "trace ld' = trace ld @
                map (\<lambda>x. Command_Success (cmd x) (close_result E (last_tx (chan_mem ld c)) coop))
                    (filter (\<lambda>x. cc_channel x = Some c) rest)"
      "chan_mem ld' = chan_mem ld" "peer_mem ld' = peer_mem ld" "peers ld' = peers ld"
      using Cons.IH [of ld "kept @ [cc]"] Cons.prems(1) by blast
    with False live show ?thesis by simp
  next
    case True
    define r where "r = close_result E (last_tx (chan_mem ld c)) coop"
    define ld1 where "ld1 = command_success ld (cmd cc) r"
    have one: "resolve_one_close_command E ld cc coop = Inr ld1"
      by (simp add: resolve_one_close_command_def True ld1_def r_def)
    have notin: "cc \<notin> set kept" using Cons.prems(3) True by auto
    have cc1: "close_commands ld1 = kept @ rest"
      using Cons.prems(1,2) live notin
      by (simp add: ld1_def command_success_simps remove1_append)
    have d1: "distinct (map cmd (close_commands ld1))"
      using Cons.prems(1,2) cc1 by simp
    have tr1: "trace ld1 = trace ld @ [Command_Success (cmd cc) r]"
      and cm1: "chan_mem ld1 = chan_mem ld" and pm1: "peer_mem ld1 = peer_mem ld"
      and ps1: "peers ld1 = peers ld"
      using Cons.prems(1) live by (simp_all add: ld1_def command_success_simps)
    obtain ld' where
      "resolve_loop E c coop rest ld1 = Inr ld'"
      "close_commands ld' = kept @ filter (\<lambda>x. cc_channel x \<noteq> Some c) rest"
      "trace ld' = trace ld1 @
                map (\<lambda>x. Command_Success (cmd x) (close_result E (last_tx (chan_mem ld1 c)) coop))
                    (filter (\<lambda>x. cc_channel x = Some c) rest)"
      "chan_mem ld' = chan_mem ld1" "peer_mem ld' = peer_mem ld1" "peers ld' = peers ld1"
      using Cons.IH [of ld1 kept] d1 cc1 Cons.prems(3) by blast
    with True live one tr1 cm1 pm1 ps1 show ?thesis by (simp add: r_def)
  qed
qed

lemma free_command_chan_mem_aux:
  "chan_mem (foldl destroy_close_command ld xs) = chan_mem ld"
  by (induction xs arbitrary: ld) (simp_all add: destroy_close_command_simps)

lemma command_success_chan_mem: "chan_mem (command_success ld k r) = chan_mem ld"
  by (simp add: command_success_def free_command_def free_command_chan_mem_aux emit_simps)

lemma resolve_loop_chan_mem:
  "resolve_loop E c coop rest ld = Inr ld' \<Longrightarrow> chan_mem ld' = chan_mem ld"
proof (induction rest arbitrary: ld)
  case Nil
  then show ?case by simp
next
  case (Cons cc rest)
  then show ?case
    by (auto simp: resolve_one_close_command_def command_success_chan_mem
             split: if_splits option.splits sum.splits)
qed

lemma resolve_close_command_spec:
  assumes "distinct (map cmd (close_commands ld))"
  shows "\<exists>ld'. resolve_close_command E ld c coop = Inr ld'
           \<and> close_commands ld' = filter (\<lambda>x. cc_channel x \<noteq> Some c) (close_commands ld)
           \<and> trace ld' = trace ld @
                map (\<lambda>x. Command_Success (cmd x) (close_result E (last_tx (chan_mem ld c)) coop))
                    (filter (\<lambda>x. cc_channel x = Some c) (close_commands ld))
           \<and> chan_mem ld' = chan_mem ld \<and> peer_mem ld' = peer_mem ld \<and> peers ld' = peers ld"
  using resolve_loop_spec [of ld "[]" "close_commands ld" c E coop] assms
  by (simp add: resolve_close_command_def)

text \<open>
  C6. When close-command resolution runs for a channel, the commands completed in that
  run are exactly the registered close commands whose channel pointer is that channel, in
  list order: each receives a success result holding the channel's \<open>last_tx\<close> (written
  as hex by \<^verbatim>\<open>json_add_tx\<close>), its txid, and the type "mutual" when cooperative and
  "unilateral" otherwise; each is completed, which unlinks its record, and the records of
  other channels stay registered. Every registered record belongs to a command of its
  own, which is how \<^verbatim>\<open>register_close_command\<close> allocates them.
\<close>

theorem resolve_close_command_resolves_matching:
  assumes "distinct (map cmd (close_commands ld))"
  shows "\<exists>ld'. resolve_close_command E ld c cooperative = Inr ld'
           \<and> events_since ld ld' =
                map (\<lambda>cc. Command_Success (cmd cc)
                             (J_Object [(''tx'', J_Tx (last_tx (chan_mem ld c))),
                                        (''txid'', J_Txid (bitcoin_txid E (last_tx (chan_mem ld c)))),
                                        (''type'', J_String (if cooperative then ''mutual'' else ''unilateral''))]))
                    (filter (\<lambda>cc. cc_channel cc = Some c) (close_commands ld))
           \<and> close_commands ld' = filter (\<lambda>cc. cc_channel cc \<noteq> Some c) (close_commands ld)"
proof -
  obtain ld' where r: "resolve_close_command E ld c cooperative = Inr ld'"
    and cc: "close_commands ld' = filter (\<lambda>x. cc_channel x \<noteq> Some c) (close_commands ld)"
    and tr: "trace ld' = trace ld @
                map (\<lambda>x. Command_Success (cmd x) (close_result E (last_tx (chan_mem ld c)) cooperative))
                    (filter (\<lambda>x. cc_channel x = Some c) (close_commands ld))"
    using resolve_close_command_spec [OF assms, of E c cooperative] by blast
  from tr have "events_since ld ld' =
                map (\<lambda>x. Command_Success (cmd x) (close_result E (last_tx (chan_mem ld c)) cooperative))
                    (filter (\<lambda>x. cc_channel x = Some c) (close_commands ld))"
    by (simp add: events_since_def)
  with r cc show ?thesis by (simp add: close_result_def)
qed

theorem resolve_close_command_resolves_matching_witness:
  "\<exists>ld'. resolve_close_command sample_env sample_ld 0 True = Inr ld'
      \<and> events_since sample_ld ld' =
          [Command_Success 1 (J_Object [(''tx'', J_Tx \<lparr>content = [1, 2, 3], witness = None\<rparr>),
                                        (''txid'', J_Txid [3, 2, 1]),
                                        (''type'', J_String ''mutual'')]),
           Command_Success 3 (J_Object [(''tx'', J_Tx \<lparr>content = [1, 2, 3], witness = None\<rparr>),
                                        (''txid'', J_Txid [3, 2, 1]),
                                        (''type'', J_String ''mutual'')])]
      \<and> close_commands ld' = [\<lparr>cmd = 2, cc_channel = Some 1, force = True\<rparr>]"
  using resolve_close_command_resolves_matching [of sample_ld sample_env 0 True]
  by (simp add: sample_ld_def sample_env_def sample_channel_def)


lemma set_channel_simps:
  "chan_mem (set_channel c ch ld) = (chan_mem ld)(c := ch)"
  "trace (set_channel c ch ld) = trace ld"
  "close_commands (set_channel c ch ld) = close_commands ld"
  "peer_mem (set_channel c ch ld) = peer_mem ld"
  "peers (set_channel c ch ld) = peers ld"
  by (simp_all add: set_channel_def)

text \<open>
  C1. For a channel whose \<open>future_per_commitment_point\<close> is set, \<^verbatim>\<open>drop_to_chain\<close> with
  \<open>cooperative = false\<close> returns, and all it does is log and resolve: no request is written
  to the signer, nothing is added to or annotated in the wallet, nothing is broadcast, the
  channel records are left as they were, and every close command registered against the
  channel is completed with a success result of type "unilateral".
\<close>

theorem drop_to_chain_future_point_only_logs:
  assumes "future_per_commitment_point (chan_mem ld c) \<noteq> None"
    and "distinct (map cmd (close_commands ld))"
  shows "\<exists>ld'. drop_to_chain E ld c False = Inr ld'
           \<and> events_since ld ld' =
                Log_Broken c ''Cannot broadcast our commitment tx: they have a future one'' #
                map (\<lambda>cc. Command_Success (cmd cc)
                             (J_Object [(''tx'', J_Tx (last_tx (chan_mem ld c))),
                                        (''txid'', J_Txid (bitcoin_txid E (last_tx (chan_mem ld c)))),
                                        (''type'', J_String ''unilateral'')]))
                    (filter (\<lambda>cc. cc_channel cc = Some c) (close_commands ld))
           \<and> list_all (\<lambda>e. \<not> signs_or_broadcasts e) (events_since ld ld')
           \<and> chan_mem ld' = chan_mem ld
           \<and> close_commands ld' = filter (\<lambda>cc. cc_channel cc \<noteq> Some c) (close_commands ld)"
proof -
  define ld0 where "ld0 = emit (Log_Broken c ''Cannot broadcast our commitment tx: they have a future one'') ld"
  have d0: "distinct (map cmd (close_commands ld0))"
    using assms(2) by (simp add: ld0_def emit_simps)
  obtain ld' where r: "resolve_close_command E ld0 c False = Inr ld'"
    and cc: "close_commands ld' = filter (\<lambda>x. cc_channel x \<noteq> Some c) (close_commands ld0)"
    and tr: "trace ld' = trace ld0 @
                map (\<lambda>x. Command_Success (cmd x) (close_result E (last_tx (chan_mem ld0 c)) False))
                    (filter (\<lambda>x. cc_channel x = Some c) (close_commands ld0))"
    and cm: "chan_mem ld' = chan_mem ld0"
    using resolve_close_command_spec [OF d0, of E c False] by blast
  have run: "drop_to_chain E ld c False = Inr ld'"
    using assms(1) r by (simp add: drop_to_chain_def ld0_def)
  have ev: "events_since ld ld' =
                Log_Broken c ''Cannot broadcast our commitment tx: they have a future one'' #
                map (\<lambda>x. Command_Success (cmd x) (close_result E (last_tx (chan_mem ld c)) False))
                    (filter (\<lambda>x. cc_channel x = Some c) (close_commands ld))"
    using tr by (simp add: events_since_def ld0_def emit_simps)
  have quiet: "list_all (\<lambda>e. \<not> signs_or_broadcasts e) (events_since ld ld')"
    unfolding ev by (simp add: list_all_iff)
  show ?thesis
    using run ev quiet cm cc by (simp add: ld0_def emit_simps close_result_def)
qed

theorem drop_to_chain_future_point_only_logs_witness:
  "\<exists>ld'. drop_to_chain sample_env
            (sample_ld\<lparr>chan_mem := (\<lambda>c. sample_channel\<lparr>future_per_commitment_point := Some [5]\<rparr>)\<rparr>)
            0 False = Inr ld'
      \<and> events_since (sample_ld\<lparr>chan_mem := (\<lambda>c. sample_channel\<lparr>future_per_commitment_point := Some [5]\<rparr>)\<rparr>) ld' =
          [Log_Broken 0 ''Cannot broadcast our commitment tx: they have a future one'',
           Command_Success 1 (J_Object [(''tx'', J_Tx \<lparr>content = [1, 2, 3], witness = None\<rparr>),
                                        (''txid'', J_Txid [3, 2, 1]),
                                        (''type'', J_String ''unilateral'')]),
           Command_Success 3 (J_Object [(''tx'', J_Tx \<lparr>content = [1, 2, 3], witness = None\<rparr>),
                                        (''txid'', J_Txid [3, 2, 1]),
                                        (''type'', J_String ''unilateral'')])]
      \<and> close_commands ld' = [\<lparr>cmd = 2, cc_channel = Some 1, force = True\<rparr>]"
  using drop_to_chain_future_point_only_logs
          [of "sample_ld\<lparr>chan_mem := (\<lambda>c. sample_channel\<lparr>future_per_commitment_point := Some [5]\<rparr>)\<rparr>"
              0 sample_env]
  by (auto simp: sample_ld_def sample_env_def sample_channel_def)

lemma foldl_destroy_trace:
  "trace (foldl destroy_close_command ld xs) = trace ld"
  by (induction xs arbitrary: ld) (simp_all add: destroy_close_command_simps)

lemma command_success_trace:
  "trace (command_success ld k r) = trace ld @ [Command_Success k r]"
  by (simp add: command_success_def free_command_def foldl_destroy_trace emit_simps)

lemma sign_last_tx_result:
  "sign_last_tx E ld c = Inr ld1 \<Longrightarrow>
     witness (last_tx (chan_mem ld c)) = None
     \<and> (\<exists>w. chan_mem ld1 = (chan_mem ld)(c := (chan_mem ld c)\<lparr>last_tx := (last_tx (chan_mem ld c))\<lparr>witness := Some w\<rparr>\<rparr>))"
  by (auto simp: sign_last_tx_def Let_def set_channel_simps emit_simps
           split: if_splits hsm_reply.splits)

lemma resolve_close_command_chan_mem:
  "resolve_close_command E ld c coop = Inr ld' \<Longrightarrow> chan_mem ld' = chan_mem ld"
  by (simp add: resolve_close_command_def resolve_loop_chan_mem)

lemma resolve_loop_trace_prefix:
  "resolve_loop E c coop rest ld = Inr ld' \<Longrightarrow>
     \<exists>more. trace ld' = trace ld @ more \<and> (\<forall>e\<in>set more. \<exists>k r. e = Command_Success k r)"
proof (induction rest arbitrary: ld)
  case Nil
  then show ?case by simp
next
  case (Cons cc rest)
  show ?case
  proof (cases "cc_channel cc = Some c")
    case False
    with Cons show ?thesis by (auto split: if_splits)
  next
    case True
    with Cons.prems obtain ld1 where
      one: "resolve_one_close_command E ld cc coop = Inr ld1"
      and rest: "resolve_loop E c coop rest ld1 = Inr ld'"
      by (auto split: if_splits sum.splits)
    from one obtain k r where t1: "trace ld1 = trace ld @ [Command_Success k r]"
      by (auto simp: resolve_one_close_command_def command_success_trace split: option.splits)
    from Cons.IH [OF rest] obtain more where
      t2: "trace ld' = trace ld1 @ more" and cs: "\<forall>e\<in>set more. \<exists>k r. e = Command_Success k r"
      by blast
    have "trace ld' = trace ld @ (Command_Success k r # more)" using t1 t2 by simp
    moreover have "\<forall>e\<in>set (Command_Success k r # more). \<exists>k r. e = Command_Success k r"
      using cs by simp
    ultimately show ?thesis by blast
  qed
qed

lemma resolve_close_command_trace:
  "resolve_close_command E ld c coop = Inr ld' \<Longrightarrow>
     \<exists>more. trace ld' = trace ld @ more \<and> (\<forall>e\<in>set more. \<exists>k r. e = Command_Success k r)"
  by (simp add: resolve_close_command_def resolve_loop_trace_prefix)

text \<open>
  C2. \<open>last_tx\<close> is kept as an unsigned template: for every channel in that shape and
  either value of the cooperative flag, once \<^verbatim>\<open>drop_to_chain\<close> has returned the
  channel's \<open>last_tx\<close> has no witness. A witness exists only in between: the transaction
  handed to the broadcast carries one, and what is left in the channel is that transaction
  with the witness removed.
\<close>

theorem drop_to_chain_leaves_no_witness:
  assumes ret: "drop_to_chain E ld c cooperative = Inr ld'"
    and inv: "witness (last_tx (chan_mem ld c)) = None"
  shows "witness (last_tx (chan_mem ld' c)) = None
       \<and> (\<forall>tx. Broadcast_Tx c tx \<in> set (events_since ld ld')
              \<longrightarrow> witness tx \<noteq> None \<and> remove_sig tx = last_tx (chan_mem ld' c))"
proof (cases "future_per_commitment_point (chan_mem ld c) \<noteq> None \<and> \<not> cooperative")
  case True
  define ld0 where "ld0 = emit (Log_Broken c ''Cannot broadcast our commitment tx: they have a future one'') ld"
  have "drop_to_chain E ld c cooperative = resolve_close_command E ld0 c cooperative"
    using True by (simp add: drop_to_chain_def ld0_def)
  with ret have r: "resolve_close_command E ld0 c cooperative = Inr ld'" by simp
  from resolve_close_command_chan_mem [OF r] have cm: "chan_mem ld' = chan_mem ld"
    by (simp add: ld0_def emit_simps)
  from resolve_close_command_trace [OF r] obtain more where
    tr: "trace ld' = trace ld0 @ more" and cs: "\<forall>e\<in>set more. \<exists>k r. e = Command_Success k r"
    by blast
  have ev: "events_since ld ld' = Log_Broken c ''Cannot broadcast our commitment tx: they have a future one'' # more"
    using tr by (simp add: events_since_def ld0_def emit_simps)
  have "\<And>tx. Broadcast_Tx c tx \<notin> set (events_since ld ld')"
    unfolding ev using cs by auto
  with cm inv show ?thesis by simp
next
  case False
  from ret False obtain ld1 where s: "sign_last_tx E ld c = Inr ld1"
    by (auto simp: drop_to_chain_def split: sum.splits)
  from sign_last_tx_result [OF s] obtain w where
    cm1: "chan_mem ld1 = (chan_mem ld)(c := (chan_mem ld c)\<lparr>last_tx := (last_tx (chan_mem ld c))\<lparr>witness := Some w\<rparr>\<rparr>)"
    by blast
  from s have tr1: "\<exists>m. trace ld1 = trace ld @ [Wire_Sync_Write_Hsm m]"
    by (auto simp: sign_last_tx_def Let_def set_channel_simps emit_simps
             split: if_splits hsm_reply.splits)
  then obtain m where tr1': "trace ld1 = trace ld @ [Wire_Sync_Write_Hsm m]" by blast
  define signed where "signed = last_tx (chan_mem ld1 c)"
  define ld5 where "ld5 =
     set_channel c ((chan_mem ld1 c)\<lparr>last_tx := remove_sig signed\<rparr>)
       (emit (Broadcast_Tx c signed)
          (emit (Wallet_Transaction_Annotate (bitcoin_txid E signed) (last_tx_type (chan_mem ld1 c)) (dbid (chan_mem ld1 c)))
             (emit (Wallet_Transaction_Add signed) ld1)))"
  have "drop_to_chain E ld c cooperative = resolve_close_command E ld5 c cooperative"
    using False s by (auto simp: drop_to_chain_def Let_def ld5_def signed_def)
  with ret have r: "resolve_close_command E ld5 c cooperative = Inr ld'" by simp
  have cm: "chan_mem ld' = chan_mem ld5" by (rule resolve_close_command_chan_mem [OF r])
  have sw: "witness signed = Some w" by (simp add: signed_def cm1)
  have after: "last_tx (chan_mem ld' c) = remove_sig signed"
    by (simp add: cm ld5_def set_channel_simps)
  from resolve_close_command_trace [OF r] obtain more where
    tr: "trace ld' = trace ld5 @ more" and cs: "\<forall>e\<in>set more. \<exists>k r. e = Command_Success k r"
    by blast
  have ev: "events_since ld ld' =
      [Wire_Sync_Write_Hsm m, Wallet_Transaction_Add signed,
       Wallet_Transaction_Annotate (bitcoin_txid E signed) (last_tx_type (chan_mem ld1 c)) (dbid (chan_mem ld1 c)),
       Broadcast_Tx c signed] @ more"
    using tr tr1' by (simp add: events_since_def ld5_def set_channel_simps emit_simps)
  have only: "\<And>tx. Broadcast_Tx c tx \<in> set (events_since ld ld') \<Longrightarrow> tx = signed"
    unfolding ev using cs by auto
  show ?thesis
    using after sw only by (auto simp: remove_sig_def)
qed

lemmas run_defs =
  drop_to_chain_def sign_last_tx_def towire_hsm_sign_commitment_tx_def resolve_close_command_def resolve_one_close_command_def
  command_success_def command_fail_def free_command_def destroy_close_command_def
  close_result_def remove_sig_def emit_def set_channel_def events_since_def Let_def

theorem drop_to_chain_leaves_no_witness_witness:
  "\<exists>ld'. drop_to_chain sample_env sample_ld 0 True = Inr ld'
      \<and> witness (last_tx (chan_mem sample_ld 0)) = None
      \<and> witness (last_tx (chan_mem ld' 0)) = None
      \<and> Broadcast_Tx 0 \<lparr>content = [1, 2, 3], witness = Some [[9], [7], [2], [3]]\<rparr>
           \<in> set (events_since sample_ld ld')"
proof -
  have inv: "witness (last_tx (chan_mem sample_ld 0)) = None"
    by (simp add: sample_ld_def sample_channel_def)
  have "\<exists>ld'. drop_to_chain sample_env sample_ld 0 True = Inr ld'
          \<and> Broadcast_Tx 0 \<lparr>content = [1, 2, 3], witness = Some [[9], [7], [2], [3]]\<rparr>
               \<in> set (events_since sample_ld ld')"
    by (simp add: run_defs sample_ld_def sample_env_def sample_channel_def sample_peer_def)
  then obtain ld' where run: "drop_to_chain sample_env sample_ld 0 True = Inr ld'"
    and ev: "Broadcast_Tx 0 \<lparr>content = [1, 2, 3], witness = Some [[9], [7], [2], [3]]\<rparr>
               \<in> set (events_since sample_ld ld')"
    by blast
  from drop_to_chain_leaves_no_witness [OF run inv] run inv ev show ?thesis by blast
qed


lemma unsigned_update: "witness t = None \<Longrightarrow> t\<lparr>witness := None\<rparr> = t"
  by (cases t) simp

lemma drop_to_chain_chan_mem:
  assumes "drop_to_chain E ld c coop = Inr ld'"
  shows "chan_mem ld' = chan_mem ld"
proof (cases "future_per_commitment_point (chan_mem ld c) \<noteq> None \<and> \<not> coop")
  case True
  then have "drop_to_chain E ld c coop =
      resolve_close_command E
        (emit (Log_Broken c ''Cannot broadcast our commitment tx: they have a future one'') ld) c coop"
    by (simp add: drop_to_chain_def)
  with assms show ?thesis
    using resolve_close_command_chan_mem by (fastforce simp: emit_simps)
next
  case False
  from assms False obtain ld1 where s: "sign_last_tx E ld c = Inr ld1"
    by (auto simp: drop_to_chain_def split: sum.splits)
  from sign_last_tx_result [OF s] obtain w where
    u: "witness (last_tx (chan_mem ld c)) = None" and
    cm1: "chan_mem ld1 = (chan_mem ld)(c := (chan_mem ld c)\<lparr>last_tx := (last_tx (chan_mem ld c))\<lparr>witness := Some w\<rparr>\<rparr>)"
    by blast
  define ld5 where "ld5 =
     set_channel c ((chan_mem ld1 c)\<lparr>last_tx := remove_sig (last_tx (chan_mem ld1 c))\<rparr>)
       (emit (Broadcast_Tx c (last_tx (chan_mem ld1 c)))
          (emit (Wallet_Transaction_Annotate (bitcoin_txid E (last_tx (chan_mem ld1 c)))
                   (last_tx_type (chan_mem ld1 c)) (dbid (chan_mem ld1 c)))
             (emit (Wallet_Transaction_Add (last_tx (chan_mem ld1 c))) ld1)))"
  have "drop_to_chain E ld c coop = resolve_close_command E ld5 c coop"
    using False s by (auto simp: drop_to_chain_def Let_def ld5_def)
  with assms have "chan_mem ld' = chan_mem ld5"
    using resolve_close_command_chan_mem by fastforce
  also have "\<dots> = chan_mem ld"
    using u by (simp add: ld5_def set_channel_simps emit_simps cm1 remove_sig_def unsigned_update)
  finally show ?thesis .
qed

lemma sign_last_tx_can_sign:
  assumes "can_sign E ld c"
  shows "\<exists>sig. hsm E (towire_hsm_sign_commitment_tx ld c) = Hsm_Signature sig
     \<and> sign_last_tx E ld c =
         Inr (set_channel c
                ((chan_mem ld c)\<lparr>last_tx := (last_tx (chan_mem ld c))
                    \<lparr>witness := Some (bitcoin_witness_2of2 E (last_tx (chan_mem ld c)) (last_sig (chan_mem ld c)) sig
                         (remote_fundingkey (chan_mem ld c)) (local_funding_pubkey (chan_mem ld c)))\<rparr>\<rparr>)
                (emit (Wire_Sync_Write_Hsm (towire_hsm_sign_commitment_tx ld c)) ld))"
  using assms
  by (auto simp: can_sign_def sign_last_tx_def Let_def split: hsm_reply.splits)

lemma drop_to_chain_returns:
  assumes d: "distinct (map cmd (close_commands ld))"
    and ok: "(future_per_commitment_point (chan_mem ld c) \<noteq> None \<and> \<not> coop) \<or> can_sign E ld c"
  shows "\<exists>ld' pre. drop_to_chain E ld c coop = Inr ld'
           \<and> chan_mem ld' = chan_mem ld \<and> peer_mem ld' = peer_mem ld \<and> peers ld' = peers ld
           \<and> close_commands ld' = filter (\<lambda>x. cc_channel x \<noteq> Some c) (close_commands ld)
           \<and> trace ld' = trace ld @ pre @
                map (\<lambda>x. Command_Success (cmd x) (close_result E (last_tx (chan_mem ld c)) coop))
                    (filter (\<lambda>x. cc_channel x = Some c) (close_commands ld))
           \<and> (\<not> (future_per_commitment_point (chan_mem ld c) \<noteq> None \<and> \<not> coop) \<longrightarrow>
                (\<exists>tx. Broadcast_Tx c tx \<in> set pre \<and> remove_sig tx = last_tx (chan_mem ld c)))"
proof (cases "future_per_commitment_point (chan_mem ld c) \<noteq> None \<and> \<not> coop")
  case True
  define ld0 where "ld0 = emit (Log_Broken c ''Cannot broadcast our commitment tx: they have a future one'') ld"
  have d0: "distinct (map cmd (close_commands ld0))" using d by (simp add: ld0_def emit_simps)
  have run: "drop_to_chain E ld c coop = resolve_close_command E ld0 c coop"
    using True by (simp add: drop_to_chain_def ld0_def)
  from resolve_close_command_spec [OF d0, of E c coop] obtain ld' where
    "resolve_close_command E ld0 c coop = Inr ld'"
    "close_commands ld' = filter (\<lambda>x. cc_channel x \<noteq> Some c) (close_commands ld0)"
    "trace ld' = trace ld0 @
                map (\<lambda>x. Command_Success (cmd x) (close_result E (last_tx (chan_mem ld0 c)) coop))
                    (filter (\<lambda>x. cc_channel x = Some c) (close_commands ld0))"
    "chan_mem ld' = chan_mem ld0" "peer_mem ld' = peer_mem ld0" "peers ld' = peers ld0"
    by blast
  then have "drop_to_chain E ld c coop = Inr ld'
           \<and> chan_mem ld' = chan_mem ld \<and> peer_mem ld' = peer_mem ld \<and> peers ld' = peers ld
           \<and> close_commands ld' = filter (\<lambda>x. cc_channel x \<noteq> Some c) (close_commands ld)
           \<and> trace ld' = trace ld @ [Log_Broken c ''Cannot broadcast our commitment tx: they have a future one''] @
                map (\<lambda>x. Command_Success (cmd x) (close_result E (last_tx (chan_mem ld c)) coop))
                    (filter (\<lambda>x. cc_channel x = Some c) (close_commands ld))"
    using run by (simp add: ld0_def emit_simps)
  with True show ?thesis by blast
next
  case False
  with ok have cs: "can_sign E ld c" by blast
  from sign_last_tx_can_sign [OF cs] obtain ld1 where s: "sign_last_tx E ld c = Inr ld1"
    and cc1: "close_commands ld1 = close_commands ld" and tr1: "trace ld1 = trace ld @ [Wire_Sync_Write_Hsm (towire_hsm_sign_commitment_tx ld c)]"
    and pm1: "peer_mem ld1 = peer_mem ld" and ps1: "peers ld1 = peers ld"
    by (auto simp: set_channel_simps emit_simps)
  define ld5 where "ld5 =
     set_channel c ((chan_mem ld1 c)\<lparr>last_tx := remove_sig (last_tx (chan_mem ld1 c))\<rparr>)
       (emit (Broadcast_Tx c (last_tx (chan_mem ld1 c)))
          (emit (Wallet_Transaction_Annotate (bitcoin_txid E (last_tx (chan_mem ld1 c)))
                   (last_tx_type (chan_mem ld1 c)) (dbid (chan_mem ld1 c)))
             (emit (Wallet_Transaction_Add (last_tx (chan_mem ld1 c))) ld1)))"
  have run: "drop_to_chain E ld c coop = resolve_close_command E ld5 c coop"
    using False s by (auto simp: drop_to_chain_def Let_def ld5_def)
  have d5: "distinct (map cmd (close_commands ld5))"
    using d cc1 by (simp add: ld5_def set_channel_simps emit_simps)
  from resolve_close_command_spec [OF d5, of E c coop] obtain ld' where
    r: "resolve_close_command E ld5 c coop = Inr ld'"
    and r1: "close_commands ld' = filter (\<lambda>x. cc_channel x \<noteq> Some c) (close_commands ld5)"
    and r2: "trace ld' = trace ld5 @
                map (\<lambda>x. Command_Success (cmd x) (close_result E (last_tx (chan_mem ld5 c)) coop))
                    (filter (\<lambda>x. cc_channel x = Some c) (close_commands ld5))"
    and r3: "chan_mem ld' = chan_mem ld5" "peer_mem ld' = peer_mem ld5" "peers ld' = peers ld5"
    by blast
  have ret: "drop_to_chain E ld c coop = Inr ld'" using run r by simp
  have cm: "chan_mem ld' = chan_mem ld" by (rule drop_to_chain_chan_mem [OF ret])
  then have cm5: "chan_mem ld5 = chan_mem ld" using r3 by simp
  have t5: "trace ld5 = trace ld @
          [Wire_Sync_Write_Hsm (towire_hsm_sign_commitment_tx ld c),
           Wallet_Transaction_Add (last_tx (chan_mem ld1 c)),
           Wallet_Transaction_Annotate (bitcoin_txid E (last_tx (chan_mem ld1 c)))
                   (last_tx_type (chan_mem ld1 c)) (dbid (chan_mem ld1 c)),
           Broadcast_Tx c (last_tx (chan_mem ld1 c))]"
    using tr1 by (simp add: ld5_def set_channel_simps emit_simps)
  have c5: "close_commands ld5 = close_commands ld"
    using cc1 by (simp add: ld5_def set_channel_simps emit_simps)
  have "trace ld' = trace ld @
          [Wire_Sync_Write_Hsm (towire_hsm_sign_commitment_tx ld c),
           Wallet_Transaction_Add (last_tx (chan_mem ld1 c)),
           Wallet_Transaction_Annotate (bitcoin_txid E (last_tx (chan_mem ld1 c)))
                   (last_tx_type (chan_mem ld1 c)) (dbid (chan_mem ld1 c)),
           Broadcast_Tx c (last_tx (chan_mem ld1 c))] @
          map (\<lambda>x. Command_Success (cmd x) (close_result E (last_tx (chan_mem ld c)) coop))
              (filter (\<lambda>x. cc_channel x = Some c) (close_commands ld))"
    using r2 cm5 t5 c5 by simp
  moreover have "close_commands ld' = filter (\<lambda>x. cc_channel x \<noteq> Some c) (close_commands ld)"
    using r1 c5 by simp
  moreover have "peer_mem ld' = peer_mem ld" "peers ld' = peers ld"
    using r3 pm1 ps1 by (simp_all add: ld5_def set_channel_simps emit_simps)
  moreover have "remove_sig (last_tx (chan_mem ld1 c)) = last_tx (chan_mem ld c)"
  proof -
    from sign_last_tx_result [OF s] obtain w where
      u: "witness (last_tx (chan_mem ld c)) = None" and
      cm1: "chan_mem ld1 = (chan_mem ld)(c := (chan_mem ld c)\<lparr>last_tx := (last_tx (chan_mem ld c))\<lparr>witness := Some w\<rparr>\<rparr>)"
      by blast
    show ?thesis using u by (simp add: cm1 remove_sig_def unsigned_update)
  qed
  moreover have "Broadcast_Tx c (last_tx (chan_mem ld1 c))
      \<in> set [Wire_Sync_Write_Hsm (towire_hsm_sign_commitment_tx ld c),
           Wallet_Transaction_Add (last_tx (chan_mem ld1 c)),
           Wallet_Transaction_Annotate (bitcoin_txid E (last_tx (chan_mem ld1 c)))
                   (last_tx_type (chan_mem ld1 c)) (dbid (chan_mem ld1 c)),
           Broadcast_Tx c (last_tx (chan_mem ld1 c))]"
    by simp
  ultimately show ?thesis using ret cm by blast
qed


lemma foldl_destroy_mem:
  "peer_mem (foldl destroy_close_command ld xs) = peer_mem ld"
  "peers (foldl destroy_close_command ld xs) = peers ld"
  by (induction xs arbitrary: ld) (simp_all add: destroy_close_command_simps)

lemma command_fail_simps:
  assumes "distinct (map cmd (close_commands ld))" "cc \<in> set (close_commands ld)"
  shows "close_commands (command_fail ld (cmd cc) code msg) = remove1 cc (close_commands ld)"
    and "trace (command_fail ld (cmd cc) code msg) = trace ld @ [Command_Fail (cmd cc) code msg]"
    and "chan_mem (command_fail ld (cmd cc) code msg) = chan_mem ld"
    and "peer_mem (command_fail ld (cmd cc) code msg) = peer_mem ld"
    and "peers (command_fail ld (cmd cc) code msg) = peers ld"
  using assms
  by (simp_all add: command_fail_def free_command_single emit_simps destroy_close_command_simps)

lemma channel_set_state_simps:
  "chan_mem (channel_set_state ld c s) = (chan_mem ld)(c := (chan_mem ld c)\<lparr>state := s\<rparr>)"
  "trace (channel_set_state ld c s) = trace ld"
  "close_commands (channel_set_state ld c s) = close_commands ld"
  "peer_mem (channel_set_state ld c s) = peer_mem ld"
  "peers (channel_set_state ld c s) = peers ld"
  by (simp_all add: channel_set_state_def set_channel_simps)

lemma can_sign_channel_set_state:
  "can_sign E (channel_set_state (emit e ld) c s) c = can_sign E ld c"
  by (simp add: can_sign_def towire_hsm_sign_commitment_tx_def Let_def
                channel_set_state_simps emit_simps)

lemma channel_fail_permanent_chan_mem:
  assumes "channel_fail_permanent E ld c why = Inr ld'"
  shows "chan_mem ld' = (chan_mem ld)(c := (chan_mem ld c)\<lparr>state := AWAITING_UNILATERAL\<rparr>)"
  using drop_to_chain_chan_mem [OF assms [unfolded channel_fail_permanent_def]]
  by (simp add: channel_set_state_simps emit_simps)

lemma channel_fail_permanent_returns:
  assumes d: "distinct (map cmd (close_commands ld))"
    and ok: "future_per_commitment_point (chan_mem ld c) \<noteq> None \<or> can_sign E ld c"
  shows "\<exists>ld' pre. channel_fail_permanent E ld c why = Inr ld'
           \<and> chan_mem ld' = (chan_mem ld)(c := (chan_mem ld c)\<lparr>state := AWAITING_UNILATERAL\<rparr>)
           \<and> close_commands ld' = filter (\<lambda>x. cc_channel x \<noteq> Some c) (close_commands ld)
           \<and> trace ld' = trace ld @ Channel_Fail_Permanent c why # pre @
                map (\<lambda>x. Command_Success (cmd x) (close_result E (last_tx (chan_mem ld c)) False))
                    (filter (\<lambda>x. cc_channel x = Some c) (close_commands ld))
           \<and> (future_per_commitment_point (chan_mem ld c) = None \<longrightarrow>
                (\<exists>tx. Broadcast_Tx c tx \<in> set pre \<and> remove_sig tx = last_tx (chan_mem ld c)))"
proof -
  define ld0 where "ld0 = channel_set_state (emit (Channel_Fail_Permanent c why) ld) c AWAITING_UNILATERAL"
  have d0: "distinct (map cmd (close_commands ld0))"
    using d by (simp add: ld0_def channel_set_state_simps emit_simps)
  have ok0: "(future_per_commitment_point (chan_mem ld0 c) \<noteq> None \<and> \<not> False) \<or> can_sign E ld0 c"
    using ok by (simp add: ld0_def can_sign_channel_set_state)
       (simp add: channel_set_state_simps emit_simps)
  from drop_to_chain_returns [OF d0 ok0] obtain ld' pre where
    "drop_to_chain E ld0 c False = Inr ld'" "chan_mem ld' = chan_mem ld0"
    "close_commands ld' = filter (\<lambda>x. cc_channel x \<noteq> Some c) (close_commands ld0)"
    "trace ld' = trace ld0 @ pre @
                map (\<lambda>x. Command_Success (cmd x) (close_result E (last_tx (chan_mem ld0 c)) False))
                    (filter (\<lambda>x. cc_channel x = Some c) (close_commands ld0))"
    "\<not> (future_per_commitment_point (chan_mem ld0 c) \<noteq> None \<and> \<not> False) \<longrightarrow>
       (\<exists>tx. Broadcast_Tx c tx \<in> set pre \<and> remove_sig tx = last_tx (chan_mem ld0 c))"
    by blast
  then have "channel_fail_permanent E ld c why = Inr ld'
           \<and> chan_mem ld' = (chan_mem ld)(c := (chan_mem ld c)\<lparr>state := AWAITING_UNILATERAL\<rparr>)
           \<and> close_commands ld' = filter (\<lambda>x. cc_channel x \<noteq> Some c) (close_commands ld)
           \<and> trace ld' = trace ld @ Channel_Fail_Permanent c why # pre @
                map (\<lambda>x. Command_Success (cmd x) (close_result E (last_tx (chan_mem ld c)) False))
                    (filter (\<lambda>x. cc_channel x = Some c) (close_commands ld))
           \<and> (future_per_commitment_point (chan_mem ld c) = None \<longrightarrow>
                (\<exists>tx. Broadcast_Tx c tx \<in> set pre \<and> remove_sig tx = last_tx (chan_mem ld c)))"
    by (simp add: channel_fail_permanent_def ld0_def channel_set_state_simps emit_simps)
  then show ?thesis
    apply -
    apply (rule exI [of _ ld'])
    apply (rule exI [of _ pre])
    apply assumption
    done
qed

text \<open>
  C5. When the timer of a registered close command fires: with \<open>force\<close> set the channel is
  failed permanently with the reason "Forcibly closed by 'close' command timeout", which
  (unless the signer is unavailable) drops the channel to chain, broadcasting the
  commitment transaction when no future commitment point forbids it, and completes the
  command with a result of type "unilateral"; without \<open>force\<close>
  only the command fails, with "Channel close negotiation not finished before timeout",
  the record is unlinked and no channel is touched.
\<close>

theorem close_command_timeout_force_or_fail:
  assumes d: "distinct (map cmd (close_commands ld))"
    and reg: "cc \<in> set (close_commands ld)"
    and ch: "cc_channel cc = Some c"
  shows "(force cc \<longrightarrow>
            close_command_timeout E ld cc =
              channel_fail_permanent E ld c ''Forcibly closed by 'close' command timeout''
          \<and> (future_per_commitment_point (chan_mem ld c) \<noteq> None \<or> can_sign E ld c \<longrightarrow>
               (\<exists>ld'. close_command_timeout E ld cc = Inr ld'
                  \<and> Channel_Fail_Permanent c ''Forcibly closed by 'close' command timeout''
                       \<in> set (events_since ld ld')
                  \<and> Command_Success (cmd cc)
                       (J_Object [(''tx'', J_Tx (last_tx (chan_mem ld c))),
                                  (''txid'', J_Txid (bitcoin_txid E (last_tx (chan_mem ld c)))),
                                  (''type'', J_String ''unilateral'')])
                       \<in> set (events_since ld ld')
                  \<and> (future_per_commitment_point (chan_mem ld c) = None \<longrightarrow>
                       (\<exists>tx. Broadcast_Tx c tx \<in> set (events_since ld ld')
                             \<and> remove_sig tx = last_tx (chan_mem ld c)))
                  \<and> cc \<notin> set (close_commands ld'))))
       \<and> (\<not> force cc \<longrightarrow>
            (\<exists>ld'. close_command_timeout E ld cc = Inr ld'
               \<and> events_since ld ld' =
                    [Command_Fail (cmd cc) LIGHTNINGD
                       ''Channel close negotiation not finished before timeout'']
               \<and> chan_mem ld' = chan_mem ld
               \<and> close_commands ld' = remove1 cc (close_commands ld)))"
proof (intro conjI impI)
  assume f: "force cc"
  show "close_command_timeout E ld cc =
          channel_fail_permanent E ld c ''Forcibly closed by 'close' command timeout''"
    using f ch by (simp add: close_command_timeout_def)
next
  assume f: "force cc"
    and ok: "future_per_commitment_point (chan_mem ld c) \<noteq> None \<or> can_sign E ld c"
  define why where "why = ''Forcibly closed by 'close' command timeout''"
  from channel_fail_permanent_returns [OF d ok, of why] obtain ld' pre where
    r: "channel_fail_permanent E ld c why = Inr ld'"
    and cm: "chan_mem ld' = (chan_mem ld)(c := (chan_mem ld c)\<lparr>state := AWAITING_UNILATERAL\<rparr>)"
    and cl: "close_commands ld' = filter (\<lambda>x. cc_channel x \<noteq> Some c) (close_commands ld)"
    and tr: "trace ld' = trace ld @ Channel_Fail_Permanent c why # pre @
                map (\<lambda>x. Command_Success (cmd x) (close_result E (last_tx (chan_mem ld c)) False))
                    (filter (\<lambda>x. cc_channel x = Some c) (close_commands ld))"
    and bc: "future_per_commitment_point (chan_mem ld c) = None \<longrightarrow>
                (\<exists>tx. Broadcast_Tx c tx \<in> set pre \<and> remove_sig tx = last_tx (chan_mem ld c))"
    by (elim exE conjE) (rule that, assumption+)
  have ev: "events_since ld ld' = Channel_Fail_Permanent c why # pre @
                map (\<lambda>x. Command_Success (cmd x) (close_result E (last_tx (chan_mem ld c)) False))
                    (filter (\<lambda>x. cc_channel x = Some c) (close_commands ld))"
    using tr by (simp add: events_since_def)
  have "Command_Success (cmd cc) (close_result E (last_tx (chan_mem ld c)) False)
          \<in> set (events_since ld ld')"
    unfolding ev using reg ch by auto
  moreover have "Channel_Fail_Permanent c why \<in> set (events_since ld ld')"
    unfolding ev by simp
  moreover have "close_command_timeout E ld cc = Inr ld'"
    using f ch r by (simp add: close_command_timeout_def why_def)
  moreover have "cc \<notin> set (close_commands ld')" using cl ch by simp
  moreover have "future_per_commitment_point (chan_mem ld c) = None \<longrightarrow>
                   (\<exists>tx. Broadcast_Tx c tx \<in> set (events_since ld ld')
                         \<and> remove_sig tx = last_tx (chan_mem ld c))"
    unfolding ev using bc by auto
  ultimately show "\<exists>ld'. close_command_timeout E ld cc = Inr ld'
                  \<and> Channel_Fail_Permanent c ''Forcibly closed by 'close' command timeout''
                       \<in> set (events_since ld ld')
                  \<and> Command_Success (cmd cc)
                       (J_Object [(''tx'', J_Tx (last_tx (chan_mem ld c))),
                                  (''txid'', J_Txid (bitcoin_txid E (last_tx (chan_mem ld c)))),
                                  (''type'', J_String ''unilateral'')])
                       \<in> set (events_since ld ld')
                  \<and> (future_per_commitment_point (chan_mem ld c) = None \<longrightarrow>
                       (\<exists>tx. Broadcast_Tx c tx \<in> set (events_since ld ld')
                             \<and> remove_sig tx = last_tx (chan_mem ld c)))
                  \<and> cc \<notin> set (close_commands ld')"
    unfolding why_def close_result_def by (intro exI [of _ ld']) simp
next
  assume nf: "\<not> force cc"
  show "\<exists>ld'. close_command_timeout E ld cc = Inr ld'
               \<and> events_since ld ld' =
                    [Command_Fail (cmd cc) LIGHTNINGD
                       ''Channel close negotiation not finished before timeout'']
               \<and> chan_mem ld' = chan_mem ld
               \<and> close_commands ld' = remove1 cc (close_commands ld)"
    using nf d reg
    by (simp add: close_command_timeout_def events_since_def command_fail_simps)
qed


theorem close_command_timeout_force_or_fail_witness:
  "(\<exists>ld'. close_command_timeout sample_env sample_ld \<lparr>cmd = 3, cc_channel = Some 0, force = True\<rparr> = Inr ld'
       \<and> Channel_Fail_Permanent 0 ''Forcibly closed by 'close' command timeout''
            \<in> set (events_since sample_ld ld')
       \<and> Command_Success 3
            (J_Object [(''tx'', J_Tx \<lparr>content = [1, 2, 3], witness = None\<rparr>),
                       (''txid'', J_Txid [3, 2, 1]),
                       (''type'', J_String ''unilateral'')])
            \<in> set (events_since sample_ld ld')
       \<and> (\<exists>tx. Broadcast_Tx 0 tx \<in> set (events_since sample_ld ld')
                \<and> remove_sig tx = \<lparr>content = [1, 2, 3], witness = None\<rparr>)
       \<and> \<lparr>cmd = 3, cc_channel = Some 0, force = True\<rparr> \<notin> set (close_commands ld'))
   \<and> (\<exists>ld'. close_command_timeout sample_env sample_ld \<lparr>cmd = 1, cc_channel = Some 0, force = False\<rparr> = Inr ld'
       \<and> events_since sample_ld ld' =
            [Command_Fail 1 LIGHTNINGD ''Channel close negotiation not finished before timeout'']
       \<and> chan_mem ld' = chan_mem sample_ld
       \<and> close_commands ld' = [\<lparr>cmd = 2, cc_channel = Some 1, force = True\<rparr>,
                                \<lparr>cmd = 3, cc_channel = Some 0, force = True\<rparr>])"
proof -
  have d: "distinct (map cmd (close_commands sample_ld))"
    by (simp add: sample_ld_def)
  have s: "can_sign sample_env sample_ld 0"
    by (simp add: can_sign_def towire_hsm_sign_commitment_tx_def sample_ld_def sample_env_def
                  sample_channel_def)
  have r3: "\<lparr>cmd = 3, cc_channel = Some 0, force = True\<rparr> \<in> set (close_commands sample_ld)"
    and r1: "\<lparr>cmd = 1, cc_channel = Some 0, force = False\<rparr> \<in> set (close_commands sample_ld)"
    by (simp_all add: sample_ld_def)
  have nf: "future_per_commitment_point (chan_mem sample_ld 0) = None"
    by (simp add: sample_ld_def sample_channel_def)
  have l: "last_tx (chan_mem sample_ld 0) = \<lparr>content = [1, 2, 3], witness = None\<rparr>"
    and t: "bitcoin_txid sample_env \<lparr>content = [1, 2, 3], witness = None\<rparr> = [3, 2, 1]"
    and cl: "remove1 \<lparr>cmd = 1, cc_channel = Some 0, force = False\<rparr> (close_commands sample_ld) =
               [\<lparr>cmd = 2, cc_channel = Some 1, force = True\<rparr>, \<lparr>cmd = 3, cc_channel = Some 0, force = True\<rparr>]"
    by (simp_all add: sample_ld_def sample_channel_def sample_env_def)
  have c3: "cc_channel \<lparr>cmd = 3, cc_channel = Some 0, force = True\<rparr> = Some 0"
    and c1: "cc_channel \<lparr>cmd = 1, cc_channel = Some 0, force = False\<rparr> = Some 0"
    and f3: "force \<lparr>cmd = 3, cc_channel = Some 0, force = True\<rparr>"
    and f1: "\<not> force \<lparr>cmd = 1, cc_channel = Some 0, force = False\<rparr>"
    by simp_all
  from close_command_timeout_force_or_fail [OF d r3 c3, of sample_env] f3 s nf
  have A: "\<exists>ld'. close_command_timeout sample_env sample_ld \<lparr>cmd = 3, cc_channel = Some 0, force = True\<rparr> = Inr ld'
       \<and> Channel_Fail_Permanent 0 ''Forcibly closed by 'close' command timeout''
            \<in> set (events_since sample_ld ld')
       \<and> Command_Success (cmd \<lparr>cmd = 3, cc_channel = Some 0, force = True\<rparr>)
            (J_Object [(''tx'', J_Tx (last_tx (chan_mem sample_ld 0))),
                       (''txid'', J_Txid (bitcoin_txid sample_env (last_tx (chan_mem sample_ld 0)))),
                       (''type'', J_String ''unilateral'')])
            \<in> set (events_since sample_ld ld')
       \<and> (\<exists>tx. Broadcast_Tx 0 tx \<in> set (events_since sample_ld ld')
                \<and> remove_sig tx = last_tx (chan_mem sample_ld 0))
       \<and> \<lparr>cmd = 3, cc_channel = Some 0, force = True\<rparr> \<notin> set (close_commands ld')"
    by blast
  from close_command_timeout_force_or_fail [OF d r1 c1, of sample_env] f1
  have B: "\<exists>ld'. close_command_timeout sample_env sample_ld \<lparr>cmd = 1, cc_channel = Some 0, force = False\<rparr> = Inr ld'
       \<and> events_since sample_ld ld' =
            [Command_Fail (cmd \<lparr>cmd = 1, cc_channel = Some 0, force = False\<rparr>) LIGHTNINGD
               ''Channel close negotiation not finished before timeout'']
       \<and> chan_mem ld' = chan_mem sample_ld
       \<and> close_commands ld' = remove1 \<lparr>cmd = 1, cc_channel = Some 0, force = False\<rparr> (close_commands sample_ld)"
    by blast
  from A B show ?thesis
    unfolding l t cl by simp
qed

text \<open>
  C9. \<^verbatim>\<open>maybe_delete_peer\<close> always returns, and it removes a registered peer from the
  registry if and only if the peer has no channel and no uncommitted channel; no other
  peer is removed. On removal the peer's database row is dropped from the wallet exactly
  when it has one (\<open>dbid\<close> nonzero).
\<close>

theorem maybe_delete_peer_iff:
  assumes "p \<in> set (peers ld)"
  shows "\<exists>ld'. maybe_delete_peer ld p = Inr ld'
     \<and> (p \<notin> set (peers ld') \<longleftrightarrow>
          channels (peer_mem ld p) = [] \<and> uncommitted_channel (peer_mem ld p) = None)
     \<and> (p \<notin> set (peers ld') \<longrightarrow>
          events_since ld ld' =
            (if peer_dbid (peer_mem ld p) \<noteq> 0 then [Wallet_Peer_Delete (peer_dbid (peer_mem ld p))]
             else []))
     \<and> (\<forall>q. q \<noteq> p \<longrightarrow> (q \<in> set (peers ld') \<longleftrightarrow> q \<in> set (peers ld)))"
  using assms
  by (auto simp: maybe_delete_peer_def delete_peer_def destroy_peer_def wallet_peer_delete_def
                 emit_def events_since_def)

theorem maybe_delete_peer_iff_witness:
  "\<exists>ld'. maybe_delete_peer (sample_ld\<lparr>peer_mem := (\<lambda>p. sample_peer\<lparr>channels := []\<rparr>)\<rparr>) 0 = Inr ld'
     \<and> 0 \<notin> set (peers ld')
     \<and> channels (peer_mem (sample_ld\<lparr>peer_mem := (\<lambda>p. sample_peer\<lparr>channels := []\<rparr>)\<rparr>) 0) = []
     \<and> uncommitted_channel (peer_mem (sample_ld\<lparr>peer_mem := (\<lambda>p. sample_peer\<lparr>channels := []\<rparr>)\<rparr>) 0) = None
     \<and> events_since (sample_ld\<lparr>peer_mem := (\<lambda>p. sample_peer\<lparr>channels := []\<rparr>)\<rparr>) ld' = [Wallet_Peer_Delete 5]"
proof -
  have m: "0 \<in> set (peers (sample_ld\<lparr>peer_mem := (\<lambda>p. sample_peer\<lparr>channels := []\<rparr>)\<rparr>))"
    by (simp add: sample_ld_def)
  show ?thesis
    using maybe_delete_peer_iff [OF m]
    by (auto simp: sample_ld_def sample_peer_def)
qed

lemma channel_fail_transient_simps:
  "chan_mem (channel_fail_transient ld c why) = (chan_mem ld)(c := (chan_mem ld c)\<lparr>owner := None\<rparr>)"
  "trace (channel_fail_transient ld c why) = trace ld @ [Channel_Fail_Transient c why]"
  "close_commands (channel_fail_transient ld c why) = close_commands ld"
  by (simp_all add: channel_fail_transient_def set_channel_simps emit_simps)

text \<open>
  C10. The error latched for the next reconnect is written once: when
  \<^verbatim>\<open>channel_errmsg\<close> returns for a channel that already holds an error, the channel
  still holds that error; an \<open>err_for_them\<close> that the worker reports through a live peer
  connection is stored when, and only when, no error was held before.
\<close>

theorem channel_errmsg_error_write_once:
  assumes "channel_errmsg E ld c pps desc err_for_them = Inr ld'"
  shows "(error (chan_mem ld c) \<noteq> None \<longrightarrow> error (chan_mem ld' c) = error (chan_mem ld c))
       \<and> (error (chan_mem ld c) = None \<and> pps \<noteq> None \<and> err_for_them \<noteq> None \<longrightarrow>
            error (chan_mem ld' c) = err_for_them)"
proof (cases "pps = None")
  case True
  with assms show ?thesis
    by (auto simp: channel_errmsg_def channel_fail_transient_simps split: option.splits)
next
  case False
  define ld1 where "ld1 = (if err_for_them \<noteq> None \<and> error (chan_mem ld c) = None
                   then set_channel c ((chan_mem ld c)\<lparr>error := err_for_them\<rparr>) ld
                   else ld)"
  define ld2 where "ld2 = emit (Notify_Disconnect (peer_id (peer_mem ld1 (peer (chan_mem ld1 c))))) ld1"
  from assms False obtain name where
    "channel_fail_permanent E ld2 c
                 (name @ '': '' @ (if err_for_them \<noteq> None then ''sent'' else ''received'')
                    @ '' ERROR '' @ desc) = Inr ld'"
    by (auto simp: channel_errmsg_def Let_def ld1_def ld2_def split: option.splits)
  from channel_fail_permanent_chan_mem [OF this]
  have "error (chan_mem ld' c) = error (chan_mem ld1 c)"
    by (simp add: ld2_def emit_simps)
  then show ?thesis using False
    by (auto simp: ld1_def set_channel_simps)
qed

theorem channel_errmsg_error_write_once_witness:
  "\<exists>ld'. channel_errmsg sample_env
            (sample_ld\<lparr>chan_mem := (\<lambda>c. sample_channel\<lparr>error := Some [1, 2]\<rparr>)\<rparr>)
            0 (Some 4) ''bad'' (Some [3, 4]) = Inr ld'
     \<and> error (chan_mem (sample_ld\<lparr>chan_mem := (\<lambda>c. sample_channel\<lparr>error := Some [1, 2]\<rparr>)\<rparr>) 0) = Some [1, 2]
     \<and> error (chan_mem ld' 0) = Some [1, 2]"
proof -
  have "\<exists>ld'. channel_errmsg sample_env
            (sample_ld\<lparr>chan_mem := (\<lambda>c. sample_channel\<lparr>error := Some [1, 2]\<rparr>)\<rparr>)
            0 (Some 4) ''bad'' (Some [3, 4]) = Inr ld'"
    by (simp add: channel_errmsg_def channel_fail_permanent_def channel_set_state_def run_defs
                  sample_ld_def sample_env_def sample_channel_def sample_peer_def)
  then obtain ld' where run: "channel_errmsg sample_env
            (sample_ld\<lparr>chan_mem := (\<lambda>c. sample_channel\<lparr>error := Some [1, 2]\<rparr>)\<rparr>)
            0 (Some 4) ''bad'' (Some [3, 4]) = Inr ld'" by blast
  from channel_errmsg_error_write_once [OF run] run show ?thesis
    by (auto simp: sample_ld_def sample_channel_def)
qed


lemma command_fail_trace:
  "trace (command_fail ld k code msg) = trace ld @ [Command_Fail k code msg]"
  by (simp add: command_fail_def free_command_def foldl_destroy_trace emit_simps)

lemma command_fail_chan_mem: "chan_mem (command_fail ld k code msg) = chan_mem ld"
  by (simp add: command_fail_def free_command_def free_command_chan_mem_aux emit_simps)

lemma register_close_command_simps:
  "close_commands (register_close_command ld k ch t f) =
     close_commands ld @ [\<lparr>cmd = k, cc_channel = Some ch, force = f\<rparr>]"
  "trace (register_close_command ld k ch t f) = trace ld @ [New_Reltimer k t]"
  "chan_mem (register_close_command ld k ch t f) = chan_mem ld"
  by (simp_all add: register_close_command_def Let_def emit_simps)

text \<open>
  C4, as amended. For every close RPC whose id resolves to a channel: in a state other
  than NORMAL, AWAITING_LOCKIN, SHUTTING_DOWN and CLOSING_SIGEXCHANGE the command fails
  with "Channel is in state NAME" and no channel changes; from NORMAL or AWAITING_LOCKIN
  the channel moves to SHUTTING_DOWN and, when the channel has an owner, that worker is
  sent \<^verbatim>\<open>channel_send_shutdown\<close> (a channel without a worker is sent nothing); in
  each of the four eligible states a close command is registered with its timer and the
  RPC stays pending.
\<close>

theorem json_close_resolved_channel:
  assumes "close_lookup E ld c idtok = Inr (p, Some ch)"
  shows "\<exists>ld' res. json_close E ld c idtok frc timeout = Inr (ld', res)
     \<and> (state (chan_mem ld ch) \<notin> {CHANNELD_NORMAL, CHANNELD_AWAITING_LOCKIN,
                                   CHANNELD_SHUTTING_DOWN, CLOSINGD_SIGEXCHANGE} \<longrightarrow>
          res = Command_Failed
          \<and> events_since ld ld' =
               [Command_Fail c LIGHTNINGD
                  (''Channel is in state '' @ channel_state_name (state (chan_mem ld ch)))]
          \<and> chan_mem ld' = chan_mem ld)
     \<and> (state (chan_mem ld ch) \<in> {CHANNELD_NORMAL, CHANNELD_AWAITING_LOCKIN} \<longrightarrow>
          state (chan_mem ld' ch) = CHANNELD_SHUTTING_DOWN
          \<and> (case owner (chan_mem ld ch) of
                Some name \<Rightarrow> Subd_Send_Msg name Channel_Send_Shutdown \<in> set (events_since ld ld')
              | None \<Rightarrow> \<forall>name msg. Subd_Send_Msg name msg \<notin> set (events_since ld ld')))
     \<and> (state (chan_mem ld ch) \<in> {CHANNELD_SHUTTING_DOWN, CLOSINGD_SIGEXCHANGE} \<longrightarrow>
          chan_mem ld' = chan_mem ld
          \<and> (\<forall>name msg. Subd_Send_Msg name msg \<notin> set (events_since ld ld')))
     \<and> (state (chan_mem ld ch) \<in> {CHANNELD_NORMAL, CHANNELD_AWAITING_LOCKIN,
                                   CHANNELD_SHUTTING_DOWN, CLOSINGD_SIGEXCHANGE} \<longrightarrow>
          res = Command_Still_Pending
          \<and> close_commands ld' =
               close_commands ld @ [\<lparr>cmd = c, cc_channel = Some ch, force = frc\<rparr>]
          \<and> New_Reltimer c timeout \<in> set (events_since ld ld'))"
proof -
  have run: "json_close E ld c idtok frc timeout = Inr (close_channel ld c ch frc timeout)"
    using assms by (simp add: json_close_def split: option.splits)
  obtain ld' res where cr: "close_channel ld c ch frc timeout = (ld', res)"
    by (cases "close_channel ld c ch frc timeout")
  show ?thesis
  proof (cases "state (chan_mem ld ch)")
    case CHANNELD_AWAITING_LOCKIN
    with cr run show ?thesis
      by (cases "owner (chan_mem ld ch)")
         (auto simp: close_channel_def Let_def events_since_def register_close_command_simps
                     channel_set_state_simps emit_simps)
  next
    case CHANNELD_NORMAL
    with cr run show ?thesis
      by (cases "owner (chan_mem ld ch)")
         (auto simp: close_channel_def Let_def events_since_def register_close_command_simps
                     channel_set_state_simps emit_simps)
  next
    case CHANNELD_SHUTTING_DOWN
    with cr run show ?thesis
      by (auto simp: close_channel_def Let_def events_since_def register_close_command_simps)
  next
    case CLOSINGD_SIGEXCHANGE
    with cr run show ?thesis
      by (auto simp: close_channel_def Let_def events_since_def register_close_command_simps)
  next
    case CLOSINGD_COMPLETE
    with cr run show ?thesis
      by (auto simp: close_channel_def Let_def events_since_def command_fail_trace command_fail_chan_mem)
  next
    case AWAITING_UNILATERAL
    with cr run show ?thesis
      by (auto simp: close_channel_def Let_def events_since_def command_fail_trace command_fail_chan_mem)
  next
    case FUNDING_SPEND_SEEN
    with cr run show ?thesis
      by (auto simp: close_channel_def Let_def events_since_def command_fail_trace command_fail_chan_mem)
  next
    case ONCHAIN
    with cr run show ?thesis
      by (auto simp: close_channel_def Let_def events_since_def command_fail_trace command_fail_chan_mem)
  qed
qed

lemmas close_defs =
  json_close_def close_lookup_def close_channel_def peer_from_json_def peer_by_id_def
  peer_active_channel_def channel_active_def command_find_channel_def
  register_close_command_def channel_set_state_def

theorem json_close_resolved_channel_witness:
  "(\<exists>ld'. json_close sample_env sample_ld 9 ''02peer'' True 30 = Inr (ld', Command_Still_Pending)
       \<and> state (chan_mem ld' 0) = CHANNELD_SHUTTING_DOWN
       \<and> Subd_Send_Msg ''lightning_channeld'' Channel_Send_Shutdown \<in> set (events_since sample_ld ld')
       \<and> New_Reltimer 9 30 \<in> set (events_since sample_ld ld')
       \<and> close_commands ld' = close_commands sample_ld @ [\<lparr>cmd = 9, cc_channel = Some 0, force = True\<rparr>])
   \<and> (\<exists>ld'. json_close sample_env
              (sample_ld\<lparr>chan_mem := (\<lambda>c. sample_channel\<lparr>state := AWAITING_UNILATERAL\<rparr>)\<rparr>)
              9 ''02peer'' True 30 = Inr (ld', Command_Failed)
       \<and> events_since (sample_ld\<lparr>chan_mem := (\<lambda>c. sample_channel\<lparr>state := AWAITING_UNILATERAL\<rparr>)\<rparr>) ld' =
            [Command_Fail 9 LIGHTNINGD ''Channel is in state AWAITING_UNILATERAL''])
   \<and> (\<exists>ld'. json_close sample_env
              (sample_ld\<lparr>chan_mem := (\<lambda>c. sample_channel\<lparr>state := CLOSINGD_SIGEXCHANGE\<rparr>)\<rparr>)
              9 ''02peer'' True 30 = Inr (ld', Command_Still_Pending)
       \<and> state (chan_mem ld' 0) = CLOSINGD_SIGEXCHANGE
       \<and> New_Reltimer 9 30
            \<in> set (events_since (sample_ld\<lparr>chan_mem := (\<lambda>c. sample_channel\<lparr>state := CLOSINGD_SIGEXCHANGE\<rparr>)\<rparr>) ld'))"
proof -
  define ld2 where "ld2 = sample_ld\<lparr>chan_mem := (\<lambda>c. sample_channel\<lparr>state := AWAITING_UNILATERAL\<rparr>)\<rparr>"
  define ld3 where "ld3 = sample_ld\<lparr>chan_mem := (\<lambda>c. sample_channel\<lparr>state := CLOSINGD_SIGEXCHANGE\<rparr>)\<rparr>"
  have l1: "close_lookup sample_env sample_ld 9 ''02peer'' = Inr (Some 0, Some 0)"
    and l2: "close_lookup sample_env ld2 9 ''02peer'' = Inr (Some 0, Some 0)"
    and l3: "close_lookup sample_env ld3 9 ''02peer'' = Inr (Some 0, Some 0)"
    by (simp_all add: close_defs ld2_def ld3_def sample_ld_def sample_env_def sample_peer_def sample_channel_def)
  have s1: "state (chan_mem sample_ld 0) = CHANNELD_NORMAL"
    and o1: "owner (chan_mem sample_ld 0) = Some ''lightning_channeld''"
    and s2: "state (chan_mem ld2 0) = AWAITING_UNILATERAL"
    and s3: "state (chan_mem ld3 0) = CLOSINGD_SIGEXCHANGE"
    by (simp_all add: ld2_def ld3_def sample_ld_def sample_channel_def)
  from json_close_resolved_channel [OF l1, of True 30] s1 o1
  have A: "\<exists>ld'. json_close sample_env sample_ld 9 ''02peer'' True 30 = Inr (ld', Command_Still_Pending)
       \<and> state (chan_mem ld' 0) = CHANNELD_SHUTTING_DOWN
       \<and> Subd_Send_Msg ''lightning_channeld'' Channel_Send_Shutdown \<in> set (events_since sample_ld ld')
       \<and> New_Reltimer 9 30 \<in> set (events_since sample_ld ld')
       \<and> close_commands ld' = close_commands sample_ld @ [\<lparr>cmd = 9, cc_channel = Some 0, force = True\<rparr>]"
    by auto
  from json_close_resolved_channel [OF l2, of True 30] s2
  have B: "\<exists>ld'. json_close sample_env ld2 9 ''02peer'' True 30 = Inr (ld', Command_Failed)
       \<and> events_since ld2 ld' = [Command_Fail 9 LIGHTNINGD ''Channel is in state AWAITING_UNILATERAL'']"
    by auto
  from json_close_resolved_channel [OF l3, of True 30] s3
  have C: "\<exists>ld'. json_close sample_env ld3 9 ''02peer'' True 30 = Inr (ld', Command_Still_Pending)
       \<and> state (chan_mem ld' 0) = CLOSINGD_SIGEXCHANGE
       \<and> New_Reltimer 9 30 \<in> set (events_since ld3 ld')"
    by auto
  from A B C show ?thesis unfolding ld2_def ld3_def by blast
qed

text \<open>
  C4 as stated fails for a channel in NORMAL that no worker owns (its peer is not
  connected): the close is accepted and stays pending, and the timer is the only thing
  that happens; no \<^verbatim>\<open>channel_send_shutdown\<close> is sent.
\<close>

theorem json_close_without_owner_counterexample:
  "close_lookup sample_env (sample_ld\<lparr>chan_mem := (\<lambda>c. sample_channel\<lparr>owner := None\<rparr>)\<rparr>) 9 ''02peer''
     = Inr (Some 0, Some 0)
   \<and> state (chan_mem (sample_ld\<lparr>chan_mem := (\<lambda>c. sample_channel\<lparr>owner := None\<rparr>)\<rparr>) 0) = CHANNELD_NORMAL
   \<and> outcome (sample_ld\<lparr>chan_mem := (\<lambda>c. sample_channel\<lparr>owner := None\<rparr>)\<rparr>)
        (json_close sample_env (sample_ld\<lparr>chan_mem := (\<lambda>c. sample_channel\<lparr>owner := None\<rparr>)\<rparr>)
           9 ''02peer'' False 30)
     = Inr ([New_Reltimer 9 30], Command_Still_Pending)"
  by (simp add: close_defs outcome_def events_since_def emit_def set_channel_def Let_def
                sample_ld_def sample_env_def sample_peer_def sample_channel_def)

text \<open>
  C3. For a channel in AWAITING_UNILATERAL with no latched error, when the peer has
  connected and the hook lets it continue (or no plugin holds the hook), the handler
  returns having done one thing besides logging: it hands the peer connection to the
  opening worker together with the protocol error to send, whose channel-id is derived
  from the channel's \<open>funding_txid\<close> and \<open>funding_outnum\<close> and whose text is
  "Awaiting unilateral close". Neither the channel worker nor the closing worker is
  started for the channel.
\<close>

theorem peer_connected_awaiting_unilateral:
  assumes "pl_channel payload = Some c"
    and "state (chan_mem ld c) = AWAITING_UNILATERAL"
    and "error (chan_mem ld c) = None"
    and "case buffer of None \<Rightarrow> True | Some members \<Rightarrow> map_of members ''result'' = Some ''continue''"
  shows "\<exists>ld'. peer_connected_hook_cb E ld payload buffer = Inr ld'
     \<and> events_since ld ld' =
          [Log_Debug c ''Peer has reconnected, state %s'',
           Peer_Start_Openingd (pl_peer payload) (pl_pps payload)
             (Some (towire_errorfmt E
                      (Some (derive_channel_id E (funding_txid (chan_mem ld c))
                                                 (funding_outnum (chan_mem ld c))))
                      ''Awaiting unilateral close''))]
     \<and> (\<forall>pps r. Peer_Start_Channeld c pps r \<notin> set (events_since ld ld')
                \<and> Peer_Start_Closingd c pps r \<notin> set (events_since ld ld'))"
  using assms
  by (cases buffer)
     (simp_all add: peer_connected_hook_cb_def send_error_def Let_def events_since_def emit_def)

theorem peer_connected_awaiting_unilateral_witness:
  "\<exists>ld'. peer_connected_hook_cb sample_env
            (sample_ld\<lparr>chan_mem := (\<lambda>c. sample_channel\<lparr>state := AWAITING_UNILATERAL, owner := None\<rparr>)\<rparr>)
            \<lparr>pl_channel = Some 0, pl_addr = [10, 0, 0, 1], pl_peer = 0, pl_pps = 4\<rparr>
            (Some [(''result'', ''continue'')]) = Inr ld'
     \<and> events_since (sample_ld\<lparr>chan_mem := (\<lambda>c. sample_channel\<lparr>state := AWAITING_UNILATERAL, owner := None\<rparr>)\<rparr>) ld' =
          [Log_Debug 0 ''Peer has reconnected, state %s'',
           Peer_Start_Openingd 0 4
             (Some (towire_errorfmt sample_env (Some [170, 187, 1]) ''Awaiting unilateral close''))]"
proof -
  define ld0 where "ld0 = sample_ld\<lparr>chan_mem := (\<lambda>c. sample_channel\<lparr>state := AWAITING_UNILATERAL, owner := None\<rparr>)\<rparr>"
  define pl where "pl = \<lparr>pl_channel = Some 0, pl_addr = [10, 0, 0, 1], pl_peer = 0, pl_pps = (4::nat)\<rparr>"
  have a: "pl_channel pl = Some 0" and b: "state (chan_mem ld0 0) = AWAITING_UNILATERAL"
    and c: "error (chan_mem ld0 0) = None"
    and d: "case Some [(''result'', ''continue'')] of None \<Rightarrow> True
            | Some members \<Rightarrow> map_of members ''result'' = Some ''continue''"
    and e: "derive_channel_id sample_env (funding_txid (chan_mem ld0 0)) (funding_outnum (chan_mem ld0 0))
              = [170, 187, 1]"
    and f: "pl_peer pl = 0" "pl_pps pl = 4"
    by (simp_all add: pl_def ld0_def sample_ld_def sample_channel_def sample_env_def)
  from peer_connected_awaiting_unilateral [OF a b c d, of sample_env]
  have "\<exists>ld'. peer_connected_hook_cb sample_env ld0 pl (Some [(''result'', ''continue'')]) = Inr ld'
     \<and> events_since ld0 ld' =
          [Log_Debug 0 ''Peer has reconnected, state %s'',
           Peer_Start_Openingd 0 4
             (Some (towire_errorfmt sample_env (Some [170, 187, 1]) ''Awaiting unilateral close''))]"
    unfolding e f by blast
  then show ?thesis unfolding ld0_def pl_def .
qed


lemma tell_depth_simps:
  "trace (fst (tell_depth E ld c tx depth m)) = trace ld @ [Channel_Tell_Depth c tx depth]"
  "chan_mem (fst (tell_depth E ld c tx depth m)) = chan_mem ld"
  by (simp_all add: tell_depth_def Let_def emit_simps)

text \<open>
  C8. Short-channel-id assignment by the depth callback is idempotent. For a channel that
  already has a short-channel-id, when the wallet locates the funding transaction and the
  location forms a valid id: the callback returns, and it saves the channel record exactly
  when the depth is nonzero and the id formed differs from the stored one, which is also
  exactly when it fails the channel transiently (restarting the worker). At the same
  block-height and transaction-index the id formed is the stored one, so nothing is
  saved, the worker is not restarted and the stored id stays; a changed id is stored and
  saved, and the watch is kept. (What the worker does with the depth notification is not
  part of the callback.)
\<close>

theorem funding_depth_cb_scid_idempotent:
  assumes has: "scid (chan_mem ld c) = Some s"
    and loc: "wallet_transaction_locate E tx = Some (h, i)"
    and mk: "mk_short_channel_id E h i (funding_outnum (chan_mem ld c)) = Some s'"
  shows "\<exists>ld' r. funding_depth_cb E ld c tx depth = Inr (ld', r)
     \<and> ((\<exists>saved. Wallet_Channel_Save c saved \<in> set (events_since ld ld')) \<longleftrightarrow> depth \<noteq> 0 \<and> s' \<noteq> s)
     \<and> ((\<exists>why. Channel_Fail_Transient c why \<in> set (events_since ld ld')) \<longleftrightarrow> depth \<noteq> 0 \<and> s' \<noteq> s)
     \<and> (depth = 0 \<or> s' = s \<longrightarrow> scid (chan_mem ld' c) = Some s)
     \<and> (depth \<noteq> 0 \<and> s' \<noteq> s \<longrightarrow>
          r = KEEP_WATCHING
          \<and> scid (chan_mem ld' c) = Some s'
          \<and> Wallet_Channel_Save c (chan_mem ld' c) \<in> set (events_since ld ld'))"
proof -
  obtain ld' r where run: "funding_depth_cb E ld c tx depth = Inr (ld', r)"
    using assms
    by (cases "funding_depth_cb E ld c tx depth")
       (auto simp: funding_depth_cb_def Let_def emit_simps split: if_splits)
  show ?thesis
  proof (cases "depth = 0")
    case True
    with run has have "ld' = fst (tell_depth E (emit (Log_Debug c ''Funding tx %s depth %u of %u'') ld) c tx depth (minimum_depth (chan_mem ld c) \<le> depth))"
      by (auto simp: funding_depth_cb_def Let_def emit_simps)
    then have "events_since ld ld' = [Log_Debug c ''Funding tx %s depth %u of %u'', Channel_Tell_Depth c tx depth]"
      and "chan_mem ld' = chan_mem ld"
      by (simp_all add: events_since_def tell_depth_simps emit_simps)
    with run True has show ?thesis by auto
  next
    case False
    note nz = False
    show ?thesis
    proof (cases "s' = s")
      case True
      with run has loc mk nz have "ld' = fst (tell_depth E
           (emit (Wallet_Transaction_Annotate tx (TX_CHANNEL_FUNDING E) (dbid (chan_mem ld c)))
             (emit (Log_Debug c ''Funding tx %s depth %u of %u'') ld)) c tx depth (minimum_depth (chan_mem ld c) \<le> depth))"
        by (auto simp: funding_depth_cb_def Let_def emit_simps)
      then have "events_since ld ld' =
            [Log_Debug c ''Funding tx %s depth %u of %u'',
             Wallet_Transaction_Annotate tx (TX_CHANNEL_FUNDING E) (dbid (chan_mem ld c)),
             Channel_Tell_Depth c tx depth]"
        and "chan_mem ld' = chan_mem ld"
        by (simp_all add: events_since_def tell_depth_simps emit_simps)
      with run True has show ?thesis by auto
    next
      case False
      define ld2 where "ld2 = channel_fail_transient
             (emit (Wallet_Transaction_Annotate tx (TX_CHANNEL_FUNDING E) (dbid (chan_mem ld c)))
               (emit (Log_Debug c ''Funding tx %s depth %u of %u'') ld))
             c ''short_channel_id changed to %s (was %s)''"
      define saved where "saved = (chan_mem ld2 c)\<lparr>scid := Some s'\<rparr>"
      from run has loc mk nz False have r: "r = KEEP_WATCHING"
        and l: "ld' = emit (Wallet_Channel_Save c saved) (set_channel c saved ld2)"
        by (auto simp: funding_depth_cb_def Let_def emit_simps ld2_def saved_def)
      have cm: "chan_mem ld' = (chan_mem ld)(c := (chan_mem ld c)\<lparr>owner := None, scid := Some s'\<rparr>)"
        by (simp add: l saved_def ld2_def emit_simps set_channel_simps channel_fail_transient_simps)
      have sv: "saved = chan_mem ld' c"
        by (simp add: l emit_simps set_channel_simps)
      have ev: "events_since ld ld' =
            [Log_Debug c ''Funding tx %s depth %u of %u'',
             Wallet_Transaction_Annotate tx (TX_CHANNEL_FUNDING E) (dbid (chan_mem ld c)),
             Channel_Fail_Transient c ''short_channel_id changed to %s (was %s)'',
             Wallet_Channel_Save c saved]"
        by (simp add: l ld2_def events_since_def emit_simps set_channel_simps channel_fail_transient_simps)
      have "\<exists>x. Wallet_Channel_Save c x \<in> set (events_since ld ld')"
        and "\<exists>why. Channel_Fail_Transient c why \<in> set (events_since ld ld')"
        and "Wallet_Channel_Save c (chan_mem ld' c) \<in> set (events_since ld ld')"
        unfolding ev sv [symmetric] by auto
      moreover have "scid (chan_mem ld' c) = Some s'" using cm by simp
      ultimately show ?thesis using run r nz False by blast
    qed
  qed
qed

theorem funding_depth_cb_scid_idempotent_witness:
  "(\<exists>ld' r. funding_depth_cb sample_env
               (sample_ld\<lparr>chan_mem := (\<lambda>c. sample_channel\<lparr>scid := Some 549755814019073\<rparr>)\<rparr>)
               0 [170, 187] 4 = Inr (ld', r)
       \<and> \<not> (\<exists>saved. Wallet_Channel_Save 0 saved
                \<in> set (events_since (sample_ld\<lparr>chan_mem := (\<lambda>c. sample_channel\<lparr>scid := Some 549755814019073\<rparr>)\<rparr>) ld'))
       \<and> \<not> (\<exists>why. Channel_Fail_Transient 0 why
                \<in> set (events_since (sample_ld\<lparr>chan_mem := (\<lambda>c. sample_channel\<lparr>scid := Some 549755814019073\<rparr>)\<rparr>) ld'))
       \<and> scid (chan_mem ld' 0) = Some 549755814019073)
   \<and> (\<exists>ld'. funding_depth_cb sample_env
               (sample_ld\<lparr>chan_mem := (\<lambda>c. sample_channel\<lparr>scid := Some 77\<rparr>)\<rparr>)
               0 [170, 187] 4 = Inr (ld', KEEP_WATCHING)
       \<and> scid (chan_mem ld' 0) = Some 549755814019073
       \<and> Wallet_Channel_Save 0 (chan_mem ld' 0)
            \<in> set (events_since (sample_ld\<lparr>chan_mem := (\<lambda>c. sample_channel\<lparr>scid := Some 77\<rparr>)\<rparr>) ld')
       \<and> (\<exists>why. Channel_Fail_Transient 0 why
            \<in> set (events_since (sample_ld\<lparr>chan_mem := (\<lambda>c. sample_channel\<lparr>scid := Some 77\<rparr>)\<rparr>) ld')))"
proof -
  define ld1 where "ld1 = sample_ld\<lparr>chan_mem := (\<lambda>c. sample_channel\<lparr>scid := Some 549755814019073\<rparr>)\<rparr>"
  define ld2 where "ld2 = sample_ld\<lparr>chan_mem := (\<lambda>c. sample_channel\<lparr>scid := Some 77\<rparr>)\<rparr>"
  have h1: "scid (chan_mem ld1 0) = Some 549755814019073"
    and h2: "scid (chan_mem ld2 0) = Some 77"
    and loc: "wallet_transaction_locate sample_env [170, 187] = Some (500, 2)"
    and m1: "mk_short_channel_id sample_env 500 2 (funding_outnum (chan_mem ld1 0)) = Some 549755814019073"
    and m2: "mk_short_channel_id sample_env 500 2 (funding_outnum (chan_mem ld2 0)) = Some 549755814019073"
    by (simp_all add: ld1_def ld2_def sample_ld_def sample_channel_def sample_env_def)
  have ne: "(549755814019073 :: u64) \<noteq> 77" "(4 :: u32) \<noteq> 0" by simp_all
  from funding_depth_cb_scid_idempotent [OF h1 loc m1, of 4]
  have A: "\<exists>ld' r. funding_depth_cb sample_env ld1 0 [170, 187] 4 = Inr (ld', r)
       \<and> \<not> (\<exists>saved. Wallet_Channel_Save 0 saved \<in> set (events_since ld1 ld'))
       \<and> \<not> (\<exists>why. Channel_Fail_Transient 0 why \<in> set (events_since ld1 ld'))
       \<and> scid (chan_mem ld' 0) = Some 549755814019073"
    by blast
  from funding_depth_cb_scid_idempotent [OF h2 loc m2, of 4] ne
  have B: "\<exists>ld'. funding_depth_cb sample_env ld2 0 [170, 187] 4 = Inr (ld', KEEP_WATCHING)
       \<and> scid (chan_mem ld' 0) = Some 549755814019073
       \<and> Wallet_Channel_Save 0 (chan_mem ld' 0) \<in> set (events_since ld2 ld')
       \<and> (\<exists>why. Channel_Fail_Transient 0 why \<in> set (events_since ld2 ld'))"
    by auto
  from A B show ?thesis unfolding ld1_def ld2_def by blast
qed

text \<open>
  A run of "setchannelfee all" that ends: one peer whose only channel is in NORMAL. The
  worker is told the new rates, the record is saved, and the channel is listed once.
\<close>

lemma setchannelfee_all_sample_run:
  "map_option (outcome sample_ld) (json_setchannelfee sample_env sample_ld 9 ''all'' 1000 10) =
     Some (Inr ([Subd_Send_Msg ''lightning_channeld'' (Channel_Specific_Feerates 1000 10),
                 Wallet_Channel_Save 0 (sample_channel\<lparr>feerate_base := 1000, feerate_ppm := 10\<rparr>),
                 Command_Success 9
                   (J_Object [(''base'', J_Num 1000), (''ppm'', J_Num 10),
                              (''channels'',
                               J_Array [J_Object [(''peer_id'', J_Node_Id [2, 17]),
                                                  (''channel_id'', J_Channel_Id [170, 187, 1])]])])],
                Command_Succeeded))"
  by (simp add: json_setchannelfee_def param_channel_or_all_def setchannelfee_walk.simps
                list_top_def set_channel_fees_def setchannelfee_response_def
                peer_active_channel_def channel_active_def command_success_def free_command_def
                outcome_def events_since_def emit_def set_channel_def Let_def
                sample_ld_def sample_env_def sample_peer_def sample_channel_def)


text \<open>
  C7 does not hold of the code. In the "all" branch the inner loop overwrites its own
  cursor with the peer's active channel. For a peer that has channels, none of them
  active (say a single channel that is ONCHAIN), the body leaves \<^verbatim>\<open>NULL\<close> in the cursor
  and takes \<^verbatim>\<open>continue\<close>, and the loop's step reads the successor through that
  \<^verbatim>\<open>NULL\<close>: the command ends in a crash, where the claim has it answer with the
  channels in NORMAL or AWAITING_LOCKIN (here none) and leave the rest unchanged.
\<close>

theorem setchannelfee_all_closed_channel_crashes:
  assumes "peers ld = p # ps"
    and "channels (peer_mem ld p) \<noteq> []"
    and "peer_active_channel ld p = None"
  shows "json_setchannelfee E ld c ''all'' base ppm = Some (Inl Null_Deref)"
proof -
  obtain x xs where ch: "channels (peer_mem ld p) = x # xs"
    using assms(2) by (cases "channels (peer_mem ld p)") auto
  have "setchannelfee_walk E p base ppm (list_top (channels (peer_mem ld p))) (ld, [])
          = Some (Inl Null_Deref)"
    using assms(3) ch by (simp add: setchannelfee_walk.simps list_top_def)
  then have "setchannelfee_all E base ppm (peers ld) (ld, []) = Some (Inl Null_Deref)"
    using assms(1) by simp
  then show ?thesis
    by (simp add: json_setchannelfee_def param_channel_or_all_def)
qed

theorem setchannelfee_all_closed_channel_crashes_witness:
  "json_setchannelfee sample_env (sample_ld\<lparr>chan_mem := (\<lambda>c. sample_channel\<lparr>state := ONCHAIN\<rparr>)\<rparr>)
     9 ''all'' 1000 10 = Some (Inl Null_Deref)"
proof -
  define ld0 where "ld0 = sample_ld\<lparr>chan_mem := (\<lambda>c. sample_channel\<lparr>state := ONCHAIN\<rparr>)\<rparr>"
  have a: "peers ld0 = 0 # []" and b: "channels (peer_mem ld0 0) \<noteq> []"
    and c: "peer_active_channel ld0 0 = None"
    by (simp_all add: ld0_def sample_ld_def sample_peer_def sample_channel_def
                      peer_active_channel_def channel_active_def)
  from setchannelfee_all_closed_channel_crashes [OF a b c, of sample_env 9 1000 10]
  show ?thesis unfolding ld0_def .
qed

lemma set_channel_fees_keeps:
  "peer_mem (fst (set_channel_fees E ld c base ppm resp)) = peer_mem ld"
  "state (chan_mem (fst (set_channel_fees E ld c base ppm resp)) k) = state (chan_mem ld k)"
  by (simp_all add: set_channel_fees_def Let_def emit_simps set_channel_simps)

lemma setchannelfee_walk_returns_at_head:
  assumes chans: "channels (peer_mem ld p) = a # b # rest"
    and act: "channel_active (chan_mem ld a)"
    and ret: "setchannelfee_walk E q base ppm cursor st = Some r"
  shows "q = p \<longrightarrow> peer_mem (fst st) = peer_mem ld \<longrightarrow>
         (\<forall>k. state (chan_mem (fst st) k) = state (chan_mem ld k)) \<longrightarrow> cursor = None"
  using ret
proof (rule setchannelfee_walk.raw_induct
        [rotated, where P = "\<lambda>E q base ppm cursor st r.
           q = p \<longrightarrow> peer_mem (fst st) = peer_mem ld \<longrightarrow>
           (\<forall>k. state (chan_mem (fst st) k) = state (chan_mem ld k)) \<longrightarrow> cursor = None"],
       goal_cases)
  case (1 f E' q base' ppm' cursor st r)
  note IH = 1(1) and body = 1(2)
  show ?case
  proof (intro impI)
    assume q: "q = p" and pm: "peer_mem (fst st) = peer_mem ld"
      and sm: "\<forall>k. state (chan_mem (fst st) k) = state (chan_mem ld k)"
    show "cursor = None"
    proof (rule ccontr)
      assume "cursor \<noteq> None"
      then obtain node where c: "cursor = Some node" by auto
      have inv_active: "peer_active_channel (fst st) p = Some a"
        using pm sm chans act by (simp add: peer_active_channel_def channel_active_def)
      have nxt: "list_next (channels (peer_mem (fst st) p)) a = Some b"
        using pm chans by (simp add: list_top_def)
      define st' where "st' = (if state (chan_mem (fst st) a) \<noteq> CHANNELD_NORMAL \<and>
                     state (chan_mem (fst st) a) \<noteq> CHANNELD_AWAITING_LOCKIN
                  then st
                  else set_channel_fees E' (fst st) a base' ppm' (snd st))"
      have call: "f E' p base' ppm' (Some b) st' = Some r"
        using body c q inv_active nxt by (simp add: st'_def)
      have "peer_mem (fst st') = peer_mem ld"
        and "\<forall>k. state (chan_mem (fst st') k) = state (chan_mem ld k)"
        using pm sm by (simp_all add: st'_def set_channel_fees_keeps)
      with IH [OF call] have "Some b = None" by simp
      then show False by simp
    qed
  qed
qed

text \<open>
  The same loop never ends for a peer whose active channel is followed by another
  channel in its list: the cursor is set back to the active channel in every iteration.
\<close>

lemma setchannelfee_all_loops_forever:
  assumes "peers ld = p # ps"
    and "channels (peer_mem ld p) = a # b # rest"
    and "channel_active (chan_mem ld a)"
  shows "json_setchannelfee E ld c ''all'' base ppm = None"
proof -
  have "setchannelfee_walk E p base ppm (Some a) (ld, []) = None"
  proof (cases "setchannelfee_walk E p base ppm (Some a) (ld, [])")
    case None
    then show ?thesis .
  next
    case (Some r)
    from setchannelfee_walk_returns_at_head [OF assms(2,3) Some] show ?thesis by simp
  qed
  then have "setchannelfee_all E base ppm (peers ld) (ld, []) = None"
    using assms(1,2) by (simp add: list_top_def)
  then show ?thesis
    by (simp add: json_setchannelfee_def param_channel_or_all_def)
qed


end
